theory Spec2Isabelle
  imports Main "HOL-Library.Char_ord" "HOL-Library.List_Lexorder" "HOL-Library.AList"
begin

section \<open>Python values of a configuration document\<close>

text \<open>
  The configuration document handed to \<^verbatim>\<open>MultihostConfig\<close>, \<^verbatim>\<open>MultihostDomain\<close> and
  \<^verbatim>\<open>MultihostHost\<close> is a \<^verbatim>\<open>dict[str, Any]\<close> as a YAML or JSON parser produces it:
  \<^verbatim>\<open>None\<close>, booleans, integers, strings, lists, and dictionaries with string keys.
  A dictionary keeps its insertion order, so it is an association list with one pair
  per key. Strings are \<open>char list\<close>; floating point numbers are not modelled.
\<close>

datatype pyval =
    PNone
  | PBool bool
  | PInt int
  | PStr string
  | PList "pyval list"
  | PDict "(string \<times> pyval) list"

type_synonym pydict = "(string \<times> pyval) list"

text \<open>Truth value testing, as \<^verbatim>\<open>if x\<close> and \<^verbatim>\<open>not x\<close> do it.\<close>

fun truthy :: "pyval \<Rightarrow> bool" where
  "truthy PNone = False"
| "truthy (PBool b) = b"
| "truthy (PInt i) = (i \<noteq> 0)"
| "truthy (PStr s) = (s \<noteq> [])"
| "truthy (PList xs) = (xs \<noteq> [])"
| "truthy (PDict kvs) = (kvs \<noteq> [])"

text \<open>\<^verbatim>\<open>d.get(key, None)\<close> and \<^verbatim>\<open>d.get(key, default)\<close> on a dictionary.\<close>

definition dict_get :: "pydict \<Rightarrow> string \<Rightarrow> pyval \<Rightarrow> pyval" where
  "dict_get d key dflt = (case map_of d key of None \<Rightarrow> dflt | Some v \<Rightarrow> v)"

subsection \<open>Conversion to text: \<^verbatim>\<open>str(x)\<close>, f-string fields and \<^verbatim>\<open>str.lower\<close>\<close>

definition digit_char :: "nat \<Rightarrow> char" where
  "digit_char n = char_of (48 + n)"

function show_nat :: "nat \<Rightarrow> string" where
  "show_nat n = (if n < 10 then [digit_char n] else show_nat (n div 10) @ [digit_char (n mod 10)])"
  by pat_completeness auto
termination
  by (relation "measure id") auto

definition show_int :: "int \<Rightarrow> string" where
  "show_int i = (if i < 0 then CHR ''-'' # show_nat (nat (- i)) else show_nat (nat i))"

fun py_join :: "string \<Rightarrow> string list \<Rightarrow> string" where
  "py_join sep [] = []"
| "py_join sep [x] = x"
| "py_join sep (x # y # ys) = x @ sep @ py_join sep (y # ys)"

text \<open>
  \<^verbatim>\<open>repr\<close> of a value. A string is shown between single quotes; the escape sequences
  Python inserts for quotes, backslashes and unprintable characters are not modelled, so
  the text is exact for strings of plain printable characters. It only ever reaches the
  text of an error message.
\<close>

fun py_repr :: "pyval \<Rightarrow> string" where
  "py_repr PNone = ''None''"
| "py_repr (PBool b) = (if b then ''True'' else ''False'')"
| "py_repr (PInt i) = show_int i"
| "py_repr (PStr s) = CHR 0x27 # s @ [CHR 0x27]"
| "py_repr (PList xs) = ''['' @ py_join '', '' (map py_repr xs) @ '']''"
| "py_repr (PDict kvs) =
     ''{'' @ py_join '', '' (map (\<lambda>kv. py_repr (PStr (fst kv)) @ '': '' @ py_repr (snd kv)) kvs) @ ''}''"

definition py_str :: "pyval \<Rightarrow> string" where
  "py_str v = (case v of PStr s \<Rightarrow> s | _ \<Rightarrow> py_repr v)"

text \<open>\<^verbatim>\<open>str.lower\<close>: the letters A to Z go to a to z, every other character stays.\<close>

definition py_lower_char :: "char \<Rightarrow> char" where
  "py_lower_char c =
     (if CHR ''A'' \<le> c \<and> c \<le> CHR ''Z'' then char_of (of_char c + (32::nat)) else c)"

definition py_lower :: "string \<Rightarrow> string" where
  "py_lower s = map py_lower_char s"

section \<open>Exceptions, results and the observable world\<close>

text \<open>
  Every \<^verbatim>\<open>raise\<close> of the source is a value. \<open>ValueError\<close> and \<open>NotImplementedError\<close>
  carry the message the source gives them; the errors the interpreter and the standard
  library raise carry none. \<open>Exception errors\<close> is \<^verbatim>\<open>Exception(errors)\<close>, whose argument
  is the list object itself. \<open>OtherException\<close> stands for any further instance of
  \<^verbatim>\<open>Exception\<close> a collaborator raises. \<open>NonException\<close> stands for an instance of
  \<^verbatim>\<open>BaseException\<close> that is not an instance of \<^verbatim>\<open>Exception\<close>: \<^verbatim>\<open>KeyboardInterrupt\<close>,
  \<^verbatim>\<open>SystemExit\<close>, and the outcome exceptions of \<^verbatim>\<open>pytest.fail\<close> and \<^verbatim>\<open>pytest.skip\<close>.
\<close>

datatype pyexc =
    ValueError string
  | NotImplementedError string
  | TypeError
  | AttributeError
  | KeyError string
  | FileExistsError
  | NotADirectoryError
  | PermissionError
  | OSError
  | Exception "pyexc list"
  | OtherException string
  | NonException string

text \<open>\<^verbatim>\<open>isinstance(e, Exception)\<close>: what an \<^verbatim>\<open>except Exception\<close> clause catches.\<close>

fun is_Exception :: "pyexc \<Rightarrow> bool" where
  "is_Exception (NonException n) = False"
| "is_Exception e = True"

text \<open>
  The logging sink and the test fixture are opaque handles. The shell of an SSH session
  is one of the two process wrappers of \<^verbatim>\<open>pytest_mh.ssh\<close>.
\<close>

type_synonym MultihostLogger = string
type_synonym MultihostFixture = string

datatype SSHProcess = SSHBashProcess | SSHPowerShellProcess

text \<open>
  An \<^verbatim>\<open>SSHClient\<close> object is identified by the arguments it was constructed with.
\<close>

record SSHClient =
  ssh_host :: pyval
  ssh_user :: pyval
  ssh_password :: pyval
  ssh_logger :: MultihostLogger
  ssh_shell :: SSHProcess

text \<open>
  The calls the source makes on its collaborators and on the standard library, in the
  order it makes them. Each constructor of \<open>event\<close> is one call expression of the source;
  \<open>Call_mkdir dest parents exist_ok\<close> is \<^verbatim>\<open>Path(dest).mkdir(parents=..., exist_ok=...)\<close>.
\<close>

datatype event =
    Call_create_domain pyval
  | Call_host_class "string option" pydict
  | Call_role_class string
  | New_SSHClient SSHClient
  | New_CLIBuilder SSHClient
  | Call_connect SSHClient
  | Call_run SSHClient string
  | Call_mkdir string bool bool
  | Call_open_wb string
  | Call_write string string
  | Call_util_setup string
  | Call_util_teardown string

text \<open>
  The world a call runs in: the log of calls made so far, and the state \<open>ext\<close> of
  everything outside the program (the local file system, the remote hosts, the SSH
  sessions), on which only the collaborators act.
\<close>

record 'x world =
  events :: "event list"
  ext :: 'x

definition log_event :: "event \<Rightarrow> 'x world \<Rightarrow> 'x world" where
  "log_event e w = w\<lparr>events := events w @ [e]\<rparr>"

text \<open>
  The collaborators the source imports from modules outside \<^verbatim>\<open>_private/multihost.py\<close>
  (\<^verbatim>\<open>..ssh\<close>, \<^verbatim>\<open>..cli\<close>, \<^verbatim>\<open>base64\<close>, \<^verbatim>\<open>pathlib\<close> and the built-in \<^verbatim>\<open>open\<close>) are
  parameters: each may change \<open>ext\<close> and may raise any exception. \<open>SSHClient_run\<close>
  returns the \<^verbatim>\<open>stdout\<close> of the result object. \<open>Path_mkdir dest parents exist_ok\<close> is
  \<^verbatim>\<open>Path(dest).mkdir\<close> with its two flags, \<open>file_open_wb name\<close> is \<^verbatim>\<open>open(name, "wb")\<close> and
  \<open>file_write name content\<close> is \<^verbatim>\<open>f.write(content)\<close> on the file opened under that name.
\<close>

record 'x collaborators =
  SSHClient_init :: "SSHClient \<Rightarrow> 'x \<Rightarrow> 'x \<times> pyexc option"
  SSHClient_connect :: "SSHClient \<Rightarrow> 'x \<Rightarrow> 'x \<times> pyexc option"
  SSHClient_run :: "SSHClient \<Rightarrow> string \<Rightarrow> 'x \<Rightarrow> 'x \<times> (pyexc + pyval)"
  CLIBuilder_init :: "SSHClient \<Rightarrow> 'x \<Rightarrow> 'x \<times> pyexc option"
  b64decode :: "pyval \<Rightarrow> pyexc + string"
  Path_mkdir :: "string \<Rightarrow> bool \<Rightarrow> bool \<Rightarrow> 'x \<Rightarrow> 'x \<times> pyexc option"
  file_open_wb :: "string \<Rightarrow> 'x \<Rightarrow> 'x \<times> pyexc option"
  file_write :: "string \<Rightarrow> string \<Rightarrow> 'x \<Rightarrow> 'x \<times> pyexc option"

section \<open>MultihostUtility: discovery and the setup and teardown cascades\<close>

text \<open>
  A utility is an instance of \<^verbatim>\<open>MultihostUtility\<close> or of a subclass; its \<^verbatim>\<open>setup\<close> and
  \<^verbatim>\<open>teardown\<close> methods are arbitrary code of the subclass that acts on \<open>ext\<close> and
  returns normally (\<open>None\<close>) or raises (\<open>Some e\<close>). The base class methods do nothing.
\<close>

record 'x utility =
  util_setup :: "'x \<Rightarrow> 'x \<times> pyexc option"
  util_teardown :: "'x \<Rightarrow> 'x \<times> pyexc option"

definition MultihostUtility :: "'x utility" where
  "MultihostUtility = \<lparr>util_setup = (\<lambda>x. (x, None)), util_teardown = (\<lambda>x. (x, None))\<rparr>"

text \<open>
  An object, for attribute discovery, is the list of its attributes as \<^verbatim>\<open>dir\<close> and
  \<^verbatim>\<open>getattr\<close> give them: (name, value) pairs. A value is a utility or anything else.
\<close>

datatype 'x attr = UtilityAttr "'x utility" | OtherAttr

type_synonym 'x pyobject = "(string \<times> 'x attr) list"

fun isinstance_MultihostUtility :: "'x attr \<Rightarrow> bool" where
  "isinstance_MultihostUtility (UtilityAttr u) = True"
| "isinstance_MultihostUtility OtherAttr = False"

text \<open>
  \<^verbatim>\<open>inspect.getmembers(o, predicate)\<close>: the members that satisfy the predicate, sorted
  by name. \<^verbatim>\<open>dict(pairs)\<close>: a later pair with an equal key replaces the value of the
  earlier one and keeps its position.
\<close>

definition getmembers :: "'x pyobject \<Rightarrow> ('x attr \<Rightarrow> bool) \<Rightarrow> (string \<times> 'x attr) list" where
  "getmembers obj predicate = sort_key fst (filter (\<lambda>m. predicate (snd m)) obj)"

definition dict_of_pairs :: "('k \<times> 'v) list \<Rightarrow> ('k \<times> 'v) list" where
  "dict_of_pairs ps = fold (\<lambda>kv. AList.update (fst kv) (snd kv)) ps []"

fun the_utility :: "'x attr \<Rightarrow> 'x utility" where
  "the_utility (UtilityAttr u) = u"
| "the_utility OtherAttr = MultihostUtility"

text \<open>
  \<^verbatim>\<open>GetUtilityAttributes(o)\<close>: the dictionary \<open>{attribute name: utility}\<close>, in the order its
  \<^verbatim>\<open>values()\<close> are iterated.
\<close>

definition GetUtilityAttributes :: "'x pyobject \<Rightarrow> (string \<times> 'x utility) list" where
  "GetUtilityAttributes obj =
     map (\<lambda>m. (fst m, the_utility (snd m))) (dict_of_pairs (getmembers obj isinstance_MultihostUtility))"

text \<open>
  \<^verbatim>\<open>SetupUtilityAttributes\<close>: the loop \<^verbatim>\<open>for util in ...values(): util.setup()\<close>. An
  exception of \<^verbatim>\<open>util.setup()\<close> leaves the loop and the function at once. The name of the
  attribute goes to the log only.
\<close>

fun setup_loop :: "(string \<times> 'x utility) list \<Rightarrow> 'x world \<Rightarrow> 'x world \<times> pyexc option" where
  "setup_loop [] w = (w, None)"
| "setup_loop (nu # us) w =
     (let w1 = log_event (Call_util_setup (fst nu)) w;
          r = util_setup (snd nu) (ext w1);
          w2 = w1\<lparr>ext := fst r\<rparr>
      in case snd r of
           Some e \<Rightarrow> (w2, Some e)
         | None \<Rightarrow> setup_loop us w2)"

definition SetupUtilityAttributes :: "'x pyobject \<Rightarrow> 'x world \<Rightarrow> 'x world \<times> pyexc option" where
  "SetupUtilityAttributes obj w = setup_loop (GetUtilityAttributes obj) w"

text \<open>
  \<^verbatim>\<open>TeardownUtilityAttributes\<close>: the loop with \<^verbatim>\<open>try: util.teardown()\<close> and
  \<^verbatim>\<open>except Exception as e: errors.append(e)\<close>, then \<^verbatim>\<open>if errors: raise Exception(errors)\<close>.
  The \<^verbatim>\<open>except\<close> clause catches the instances of \<^verbatim>\<open>Exception\<close>; any other exception leaves
  the loop and the function at once.
\<close>

fun teardown_loop ::
  "(string \<times> 'x utility) list \<Rightarrow> pyexc list \<Rightarrow> 'x world \<Rightarrow> 'x world \<times> (pyexc + pyexc list)" where
  "teardown_loop [] errors w = (w, Inr errors)"
| "teardown_loop (nu # us) errors w =
     (let w1 = log_event (Call_util_teardown (fst nu)) w;
          r = util_teardown (snd nu) (ext w1);
          w2 = w1\<lparr>ext := fst r\<rparr>
      in case snd r of
           None \<Rightarrow> teardown_loop us errors w2
         | Some e \<Rightarrow>
             if is_Exception e then teardown_loop us (errors @ [e]) w2
             else (w2, Inl e))"

definition TeardownUtilityAttributes :: "'x pyobject \<Rightarrow> 'x world \<Rightarrow> 'x world \<times> pyexc option" where
  "TeardownUtilityAttributes obj w =
     (case teardown_loop (GetUtilityAttributes obj) [] w of
        (w', Inl e) \<Rightarrow> (w', Some e)
      | (w', Inr errors) \<Rightarrow> (w', if errors \<noteq> [] then Some (Exception errors) else None))"

text \<open>
  A role object has the attributes \<^verbatim>\<open>mh\<close>, \<^verbatim>\<open>role\<close> and \<^verbatim>\<open>host\<close>, none of them a
  utility, and the attributes its subclass assigns.
\<close>

definition role_object :: "'x pyobject \<Rightarrow> 'x pyobject" where
  "role_object subclass_attrs =
     [(''host'', OtherAttr), (''mh'', OtherAttr), (''role'', OtherAttr)] @ subclass_attrs"

section \<open>MultihostConfig\<close>

text \<open>
  Iteration \<^verbatim>\<open>for x in v\<close>: the items of a list, the keys of a dictionary, the characters
  of a string; anything else is not iterable.
\<close>

fun py_iter :: "pyval \<Rightarrow> pyexc + pyval list" where
  "py_iter (PList xs) = Inr xs"
| "py_iter (PDict kvs) = Inr (map (\<lambda>kv. PStr (fst kv)) kvs)"
| "py_iter (PStr s) = Inr (map (\<lambda>c. PStr [c]) s)"
| "py_iter v = Inl TypeError"

text \<open>
  The configuration object; \<open>'d\<close> is the type of the domain objects that the abstract
  method \<^verbatim>\<open>create_domain\<close> returns.
\<close>

record 'd MultihostConfig =
  config_logger :: MultihostLogger
  lazy_ssh :: bool
  domains :: "'d list"

text \<open>The loop \<^verbatim>\<open>for domain in confdict["domains"]: self.domains.append(...)\<close>.\<close>

fun create_domains_loop ::
  "('d MultihostConfig \<Rightarrow> pyval \<Rightarrow> 'x \<Rightarrow> 'x \<times> (pyexc + 'd)) \<Rightarrow> pyval list \<Rightarrow>
   'd MultihostConfig \<Rightarrow> 'x world \<Rightarrow> 'x world \<times> 'd MultihostConfig \<times> pyexc option" where
  "create_domains_loop create_domain [] self w = (w, self, None)"
| "create_domains_loop create_domain (d # ds) self w =
     (let w1 = log_event (Call_create_domain d) w;
          r = create_domain self d (ext w1);
          w2 = w1\<lparr>ext := fst r\<rparr>
      in case snd r of
           Inl e \<Rightarrow> (w2, self, Some e)
         | Inr new_domain \<Rightarrow>
             create_domains_loop create_domain ds (self\<lparr>domains := domains self @ [new_domain]\<rparr>) w2)"

text \<open>
  \<^verbatim>\<open>MultihostConfig.__init__\<close>. The result holds the object as the constructor left it,
  also when it raises.
\<close>

definition MultihostConfig_init ::
  "('d MultihostConfig \<Rightarrow> pyval \<Rightarrow> 'x \<Rightarrow> 'x \<times> (pyexc + 'd)) \<Rightarrow> pydict \<Rightarrow> MultihostLogger \<Rightarrow> bool \<Rightarrow>
   'x world \<Rightarrow> 'x world \<times> 'd MultihostConfig \<times> pyexc option" where
  "MultihostConfig_init create_domain confdict logger lazy w =
     (let self = \<lparr>config_logger = logger, lazy_ssh = lazy, domains = []\<rparr> in
      case map_of confdict ''domains'' of
        None \<Rightarrow>
          (w, self, Some (ValueError ''\"domains\" property is missing in multihost configuration''))
      | Some ds \<Rightarrow>
          (case py_iter ds of
             Inl e \<Rightarrow> (w, self, Some e)
           | Inr items \<Rightarrow> create_domains_loop create_domain items self w))"

section \<open>MultihostHost\<close>

datatype MultihostHostOS = Linux | Windows

text \<open>
  The part of the owning domain a host reads: the logger, the lazy flag of the domain's
  configuration and the type of the domain.
\<close>

record MultihostDomain =
  domain_logger :: MultihostLogger
  domain_lazy_ssh :: bool
  domain_type :: pyval

text \<open>
  The host object. \<open>host_class\<close> is the class the object was created from. The fields
  read from the configuration hold whatever value the document has there. The
  \<^verbatim>\<open>CLIBuilder\<close> is identified by the session it was built over.
\<close>

record MultihostHost =
  host_class :: string
  domain :: MultihostDomain
  logger :: MultihostLogger
  hostname :: pyval
  role :: pyval
  username :: pyval
  password :: pyval
  ip :: pyval
  config :: pyval
  artifacts :: pyval
  shell :: SSHProcess
  os :: MultihostHostOS
  ssh :: SSHClient
  cli :: SSHClient

subsection \<open>The required fields\<close>

text \<open>
  The operations \<^verbatim>\<open>is_present\<close> applies to \<^verbatim>\<open>confdict\<close>, which below the top level is
  whatever value the document holds: \<^verbatim>\<open>confdict.get(key, None)\<close> exists on a dictionary
  only; \<^verbatim>\<open>confdict[key]\<close> with a string key works on a dictionary only;
  \<^verbatim>\<open>key in confdict\<close> is key membership on a dictionary, the substring test on a string,
  element membership on a list and a \<^verbatim>\<open>TypeError\<close> otherwise.
\<close>

fun py_get :: "pyval \<Rightarrow> string \<Rightarrow> pyexc + pyval" where
  "py_get (PDict d) key = Inr (dict_get d key PNone)"
| "py_get v key = Inl AttributeError"

fun py_getitem :: "pyval \<Rightarrow> string \<Rightarrow> pyexc + pyval" where
  "py_getitem (PDict d) key = (case map_of d key of None \<Rightarrow> Inl (KeyError key) | Some v \<Rightarrow> Inr v)"
| "py_getitem v key = Inl TypeError"

fun py_substring :: "string \<Rightarrow> string \<Rightarrow> bool" where
  "py_substring s [] = (s = [])"
| "py_substring s (c # t) = (take (length s) (c # t) = s \<or> py_substring s t)"

fun py_contains :: "pyval \<Rightarrow> string \<Rightarrow> pyexc + bool" where
  "py_contains (PDict d) key = Inr (map_of d key \<noteq> None)"
| "py_contains (PStr s) key = Inr (py_substring key s)"
| "py_contains (PList xs) key = Inr (PStr key \<in> set xs)"
| "py_contains v key = Inl TypeError"

text \<open>\<^verbatim>\<open>(key, subpath) = property.split("/", maxsplit=1)\<close>, for a property that has a slash.\<close>

definition split_key :: "string \<Rightarrow> string" where
  "split_key property = takeWhile (\<lambda>c. c \<noteq> CHR ''/'') property"

definition split_subpath :: "string \<Rightarrow> string" where
  "split_subpath property = tl (dropWhile (\<lambda>c. c \<noteq> CHR ''/'') property)"

text \<open>
  The local function \<^verbatim>\<open>is_present\<close> of \<^verbatim>\<open>MultihostHost.__init__\<close>. It returns what the
  source returns: \<^verbatim>\<open>False\<close>, or the value found at the property.
\<close>

function is_present :: "string \<Rightarrow> pyval \<Rightarrow> pyexc + pyval" where
  "is_present property confdict =
     (if CHR ''/'' \<in> set property then
        (case py_get confdict (split_key property) of
           Inl e \<Rightarrow> Inl e
         | Inr v \<Rightarrow>
             if \<not> truthy v then Inr (PBool False)
             else (case py_getitem confdict (split_key property) of
                     Inl e \<Rightarrow> Inl e
                   | Inr sub \<Rightarrow> is_present (split_subpath property) sub))
      else (case py_contains confdict property of
              Inl e \<Rightarrow> Inl e
            | Inr b \<Rightarrow> if b then py_getitem confdict property else Inr (PBool False)))"
  by pat_completeness auto
termination
proof (relation "measure (\<lambda>pc. length (fst pc))")
  show "wf (measure (\<lambda>pc. length (fst pc)))" by simp
next
  fix property :: string and confdict :: pyval and x2 :: pyval and x2a :: pyval
  assume slash: "CHR ''/'' \<in> set property"
  then have "dropWhile (\<lambda>c. c \<noteq> CHR ''/'') property \<noteq> []" by (auto simp: dropWhile_eq_Nil_conv)
  then have "length (tl (dropWhile (\<lambda>c. c \<noteq> CHR ''/'') property))
           < length (dropWhile (\<lambda>c. c \<noteq> CHR ''/'') property)" by (cases "dropWhile (\<lambda>c. c \<noteq> CHR ''/'') property") auto
  also have "\<dots> \<le> length property" by (rule length_dropWhile_le)
  finally show "((split_subpath property, x2a), property, confdict) \<in> measure (\<lambda>pc. length (fst pc))"
    by (simp add: split_subpath_def)
qed

text \<open>
  The property \<^verbatim>\<open>required_fields\<close> of the base class, and the loop
  \<^verbatim>\<open>for required in self.required_fields: if not is_present(required, confdict): raise\<close>.
\<close>

definition MultihostHost_required_fields :: "string list" where
  "MultihostHost_required_fields = [''hostname'', ''role'', ''username'', ''password'']"

fun check_required :: "string list \<Rightarrow> pydict \<Rightarrow> pyexc option" where
  "check_required [] confdict = None"
| "check_required (required # rest) confdict =
     (case is_present required (PDict confdict) of
        Inl e \<Rightarrow> Some e
      | Inr v \<Rightarrow>
          if \<not> truthy v
          then Some (ValueError (''\"'' @ required @ ''\" property is missing in host configuration''))
          else check_required rest confdict)"

subsection \<open>Operating system, shell and construction\<close>

text \<open>\<^verbatim>\<open>confdict[key]\<close> on the host entry itself, a dictionary.\<close>

definition dict_getitem :: "pydict \<Rightarrow> string \<Rightarrow> pyexc + pyval" where
  "dict_getitem d key = (case map_of d key of None \<Rightarrow> Inl (KeyError key) | Some v \<Rightarrow> Inr v)"

text \<open>\<^verbatim>\<open>MultihostHostOS(value)\<close>: the member of the enumeration with that value, if any.\<close>

definition MultihostHostOS_lookup :: "string \<Rightarrow> MultihostHostOS option" where
  "MultihostHostOS_lookup s =
     (if s = ''linux'' then Some Linux else if s = ''windows'' then Some Windows else None)"

text \<open>
  \<^verbatim>\<open>os = str(confdict.get("os", MultihostHostOS.Linux.value)).lower()\<close> and the
  \<^verbatim>\<open>try\<close> block that turns the enumeration's \<^verbatim>\<open>ValueError\<close> into the host's own.
\<close>

definition determine_os :: "pydict \<Rightarrow> pyexc + MultihostHostOS" where
  "determine_os confdict =
     (let os_name = py_lower (py_str (dict_get confdict ''os'' (PStr ''linux''))) in
      case MultihostHostOS_lookup os_name of
        None \<Rightarrow>
          Inl (ValueError (''Value \"'' @ os_name @ ''\" is not supported in os field of host configuration''))
      | Some v \<Rightarrow> Inr v)"

text \<open>
  \<^verbatim>\<open>match self.os\<close>. The enumeration has two members, so the third case of the source,
  which raises \<^verbatim>\<open>ValueError("Unknown operating system: ...")\<close>, has no value to match.
\<close>

fun select_shell :: "MultihostHostOS \<Rightarrow> SSHProcess" where
  "select_shell Linux = SSHBashProcess"
| "select_shell Windows = SSHPowerShellProcess"

text \<open>\<^verbatim>\<open>_get_ssh_host\<close>: the address is \<^verbatim>\<open>ip\<close> when that is set, else \<^verbatim>\<open>hostname\<close>.\<close>

definition get_ssh_host :: "pyval \<Rightarrow> pyval \<Rightarrow> pyval" where
  "get_ssh_host ip_value hostname_value = (if truthy ip_value then ip_value else hostname_value)"

text \<open>
  A call of a collaborator: the call is logged, then it acts on \<open>ext\<close> and returns
  normally or raises.
\<close>

definition call_ext :: "event \<Rightarrow> ('x \<Rightarrow> 'x \<times> 'r) \<Rightarrow> 'x world \<Rightarrow> 'x world \<times> 'r" where
  "call_ext ev f w = (let r = f (ext (log_event ev w)) in ((log_event ev w)\<lparr>ext := fst r\<rparr>, snd r))"

text \<open>
  \<^verbatim>\<open>MultihostHost.__init__\<close>, for an object of class \<open>cls\<close> whose property
  \<^verbatim>\<open>required_fields\<close> is \<open>required_fields\<close> (a subclass overrides it). The steps keep the
  order of the source: the required fields, the fields read from the entry, the operating
  system and its shell, the SSH client, the command line builder, and the connection
  unless \<^verbatim>\<open>lazy_ssh\<close> is set.
\<close>

definition MultihostHost_init ::
  "'x collaborators \<Rightarrow> string \<Rightarrow> string list \<Rightarrow> MultihostDomain \<Rightarrow> pydict \<Rightarrow> 'x world \<Rightarrow>
   'x world \<times> (pyexc + MultihostHost)" where
  "MultihostHost_init C cls required_fields self_domain confdict w =
     (case check_required required_fields confdict of
        Some e \<Rightarrow> (w, Inl e)
      | None \<Rightarrow>
     (case dict_getitem confdict ''hostname'' of
        Inl e \<Rightarrow> (w, Inl e)
      | Inr hostname_value \<Rightarrow>
     (case dict_getitem confdict ''role'' of
        Inl e \<Rightarrow> (w, Inl e)
      | Inr role_value \<Rightarrow>
     (case dict_getitem confdict ''username'' of
        Inl e \<Rightarrow> (w, Inl e)
      | Inr username_value \<Rightarrow>
     (case dict_getitem confdict ''password'' of
        Inl e \<Rightarrow> (w, Inl e)
      | Inr password_value \<Rightarrow>
     (case determine_os confdict of
        Inl e \<Rightarrow> (w, Inl e)
      | Inr os_value \<Rightarrow>
     (let ip_value = dict_get confdict ''ip'' (PStr []);
          client = \<lparr>ssh_host = get_ssh_host ip_value hostname_value,
                    ssh_user = username_value,
                    ssh_password = password_value,
                    ssh_logger = domain_logger self_domain,
                    ssh_shell = select_shell os_value\<rparr>;
          self = \<lparr>host_class = cls,
                  domain = self_domain,
                  logger = domain_logger self_domain,
                  hostname = hostname_value,
                  role = role_value,
                  username = username_value,
                  password = password_value,
                  ip = ip_value,
                  config = dict_get confdict ''config'' (PDict []),
                  artifacts = dict_get confdict ''artifacts'' (PList []),
                  shell = select_shell os_value,
                  os = os_value,
                  ssh = client,
                  cli = client\<rparr>
      in case call_ext (New_SSHClient client) (SSHClient_init C client) w of
           (w1, Some e) \<Rightarrow> (w1, Inl e)
         | (w1, None) \<Rightarrow>
        (case call_ext (New_CLIBuilder client) (CLIBuilder_init C client) w1 of
           (w2, Some e) \<Rightarrow> (w2, Inl e)
         | (w2, None) \<Rightarrow>
             if \<not> domain_lazy_ssh self_domain
             then (case call_ext (Call_connect client) (SSHClient_connect C client) w2 of
                     (w3, Some e) \<Rightarrow> (w3, Inl e)
                   | (w3, None) \<Rightarrow> (w3, Inr self))
             else (w2, Inr self)))))))))"

text \<open>The constructor call \<^verbatim>\<open>MultihostHost(domain, confdict)\<close> of the base class.\<close>

definition MultihostHost_new ::
  "'x collaborators \<Rightarrow> MultihostDomain \<Rightarrow> pydict \<Rightarrow> 'x world \<Rightarrow> 'x world \<times> (pyexc + MultihostHost)" where
  "MultihostHost_new C = MultihostHost_init C ''MultihostHost'' MultihostHost_required_fields"

section \<open>MultihostDomain: hosts and roles by role name\<close>

text \<open>
  A host class is its constructor. The mappings \<^verbatim>\<open>role_to_host_type\<close> and
  \<^verbatim>\<open>role_to_role_type\<close> are abstract properties of the domain: dictionaries with string
  keys. For a key \<open>k\<close> of any type, \<^verbatim>\<open>k in d\<close> followed by \<^verbatim>\<open>d[k]\<close> gives the value of a
  string key that is present, nothing for a hashable key that is absent, and a
  \<^verbatim>\<open>TypeError\<close> for a list or a dictionary, which cannot be hashed.
\<close>

type_synonym 'x host_type =
  "MultihostDomain \<Rightarrow> pydict \<Rightarrow> 'x world \<Rightarrow> 'x world \<times> (pyexc + MultihostHost)"

fun lookup_key :: "(string \<Rightarrow> 'a option) \<Rightarrow> pyval \<Rightarrow> pyexc + 'a option" where
  "lookup_key d (PStr s) = Inr (d s)"
| "lookup_key d (PList xs) = Inl TypeError"
| "lookup_key d (PDict kvs) = Inl TypeError"
| "lookup_key d v = Inr None"

fun class_key :: "pyval \<Rightarrow> string option" where
  "class_key (PStr s) = Some s"
| "class_key v = None"

text \<open>\<^verbatim>\<open>MultihostDomain.create_host\<close>.\<close>

definition create_host ::
  "'x collaborators \<Rightarrow> (string \<Rightarrow> 'x host_type option) \<Rightarrow> MultihostDomain \<Rightarrow> pydict \<Rightarrow> 'x world \<Rightarrow>
   'x world \<times> (pyexc + MultihostHost)" where
  "create_host C role_to_host_type self confdict w =
     (if \<not> truthy (dict_get confdict ''role'' PNone)
      then (w, Inl (ValueError ''\"role\" property is missing in host configuration''))
      else
        (case dict_getitem confdict ''role'' of
           Inl e \<Rightarrow> (w, Inl e)
         | Inr role_value \<Rightarrow>
        (case lookup_key role_to_host_type role_value of
           Inl e \<Rightarrow> (w, Inl e)
         | Inr (Some cls) \<Rightarrow> cls self confdict (log_event (Call_host_class (class_key role_value) confdict) w)
         | Inr None \<Rightarrow> MultihostHost_new C self confdict (log_event (Call_host_class None confdict) w))))"

text \<open>
  The role object: the fixture, the role name and the host it is bound to, and the
  attributes of the object for utility discovery.
\<close>

record 'x MultihostRole =
  role_mh :: MultihostFixture
  role_role :: pyval
  role_host :: MultihostHost
  role_attributes :: "'x pyobject"

text \<open>\<^verbatim>\<open>MultihostRole.__init__\<close> of the base class stores its three arguments.\<close>

definition MultihostRole_init :: "MultihostFixture \<Rightarrow> pyval \<Rightarrow> MultihostHost \<Rightarrow> 'x MultihostRole" where
  "MultihostRole_init fixture role_value host =
     \<lparr>role_mh = fixture, role_role = role_value, role_host = host, role_attributes = role_object []\<rparr>"

text \<open>
  \<^verbatim>\<open>MultihostRole.setup\<close> and \<^verbatim>\<open>MultihostRole.teardown\<close> pass the role object itself to
  the two cascades.
\<close>

definition MultihostRole_setup :: "'x MultihostRole \<Rightarrow> 'x world \<Rightarrow> 'x world \<times> pyexc option" where
  "MultihostRole_setup self w = SetupUtilityAttributes (role_attributes self) w"

definition MultihostRole_teardown :: "'x MultihostRole \<Rightarrow> 'x world \<Rightarrow> 'x world \<times> pyexc option" where
  "MultihostRole_teardown self w = TeardownUtilityAttributes (role_attributes self) w"

text \<open>
  A role class is its constructor, code of a subclass: it receives the host object, may
  change it and the world, and returns the role or raises.
\<close>

type_synonym 'x role_type =
  "MultihostFixture \<Rightarrow> pyval \<Rightarrow> MultihostHost \<Rightarrow> 'x world \<Rightarrow>
   ('x world \<times> MultihostHost) \<times> (pyexc + 'x MultihostRole)"

text \<open>
  \<^verbatim>\<open>MultihostDomain.create_role\<close>. The result holds the world and the host object after
  the call.
\<close>

definition create_role ::
  "(string \<Rightarrow> 'x role_type option) \<Rightarrow> MultihostFixture \<Rightarrow> MultihostHost \<Rightarrow> 'x world \<Rightarrow>
   ('x world \<times> MultihostHost) \<times> (pyexc + 'x MultihostRole)" where
  "create_role role_to_role_type fixture host w =
     (case lookup_key role_to_role_type (role host) of
        Inl e \<Rightarrow> ((w, host), Inl e)
      | Inr None \<Rightarrow> ((w, host), Inl (ValueError (''Unexpected role: '' @ py_str (role host))))
      | Inr (Some cls) \<Rightarrow> cls fixture (role host) host (log_event (Call_role_class (py_str (role host))) w))"

section \<open>Collecting artifacts\<close>

subsection \<open>The remote command and \<^verbatim>\<open>collect_artifacts\<close>\<close>

text \<open>
  The f-string of the Linux case, with its line breaks and indentation. The list
  comprehension iterates over \<^verbatim>\<open>self.artifacts\<close>, so a value that is not iterable raises.
\<close>

definition compgen :: "pyval \<Rightarrow> string" where
  "compgen x = ''$(compgen -G \"'' @ py_str x @ ''\")''"

definition linux_command :: "pyval \<Rightarrow> pyexc + string" where
  "linux_command artifacts_value =
     (case py_iter artifacts_value of
        Inl e \<Rightarrow> Inl e
      | Inr xs \<Rightarrow>
          Inr ([CHR 0x0A] @ replicate 20 CHR '' '' @ ''tmp='' @ [CHR 0x60]
               @ ''mktemp /tmp/mh.host.artifacts.XXXXXXXXX'' @ [CHR 0x60, CHR 0x0A]
               @ replicate 20 CHR '' '' @ ''tar -czvf \"$tmp\" '' @ py_join '' '' (map compgen xs)
               @ '' &> /dev/null'' @ [CHR 0x0A]
               @ replicate 20 CHR '' '' @ ''base64 \"$tmp\"'' @ [CHR 0x0A]
               @ replicate 20 CHR '' '' @ ''rm -f \"$tmp\" &> /dev/null'' @ [CHR 0x0A]
               @ replicate 16 CHR '' ''))"

text \<open>
  The \<^verbatim>\<open>with open(...) as f: f.write(b64decode(result.stdout))\<close> block: the file is opened
  first, then the output is decoded, then the bytes are written.
\<close>

definition store_archive :: "'x collaborators \<Rightarrow> string \<Rightarrow> pyval \<Rightarrow> 'x world \<Rightarrow> 'x world \<times> pyexc option" where
  "store_archive C name stdout w =
     (case call_ext (Call_open_wb name) (file_open_wb C name) w of
        (w1, Some e) \<Rightarrow> (w1, Some e)
      | (w1, None) \<Rightarrow>
          (case b64decode C stdout of
             Inl e \<Rightarrow> (w1, Some e)
           | Inr content \<Rightarrow> call_ext (Call_write name content) (file_write C name content) w1))"

text \<open>
  \<^verbatim>\<open>MultihostHost.collect_artifacts\<close>. As in the constructor, the \<^verbatim>\<open>match\<close> on the two
  members of the enumeration leaves the third case of the source without a value.
\<close>

definition collect_artifacts ::
  "'x collaborators \<Rightarrow> MultihostHost \<Rightarrow> string \<Rightarrow> 'x world \<Rightarrow> 'x world \<times> pyexc option" where
  "collect_artifacts C self dest w =
     (if \<not> truthy (artifacts self) then (w, None)
      else
        (case call_ext (Call_mkdir dest True True) (Path_mkdir C dest True True) w of
           (w1, Some e) \<Rightarrow> (w1, Some e)
         | (w1, None) \<Rightarrow>
             (case os self of
                Linux \<Rightarrow>
                  (case linux_command (artifacts self) of
                     Inl e \<Rightarrow> (w1, Some e)
                   | Inr command \<Rightarrow>
                       (case call_ext (Call_run (ssh self) command) (SSHClient_run C (ssh self) command) w1 of
                          (w2, Inl e) \<Rightarrow> (w2, Some e)
                        | (w2, Inr stdout) \<Rightarrow>
                            store_archive C
                              (dest @ ''/'' @ py_str (role self) @ ''_'' @ py_str (hostname self) @ ''.tgz'')
                              stdout w2))
              | Windows \<Rightarrow>
                  (w1, Some (NotImplementedError ''Artifacts are not supported on Windows machine'')))))"

section \<open>Notions the properties are stated with\<close>

text \<open>
  \<open>run_all\<close> runs a list of actions one after the other on \<open>ext\<close>, whatever each of them
  returns or raises, and gives the final state with the outcome of each action;
  \<open>raised\<close> keeps the exceptions among the outcomes, in order.
\<close>

fun run_all :: "('x \<Rightarrow> 'x \<times> pyexc option) list \<Rightarrow> 'x \<Rightarrow> 'x \<times> pyexc option list" where
  "run_all [] x = (x, [])"
| "run_all (f # gs) x = (let r = f x; rest = run_all gs (fst r) in (fst rest, snd r # snd rest))"

definition raised :: "pyexc option list \<Rightarrow> pyexc list" where
  "raised rs = List.map_filter id rs"

text \<open>
  A required field names a path of keys, separated by slashes; \<open>split_on\<close> is
  \<^verbatim>\<open>s.split(sep)\<close> for a separator of one character. \<open>field_present\<close> follows
  the words of the specification: the field is present when every key of the path is
  there with a value that is not blank, each below the one before it. \<open>mappings_along\<close>
  says that the document has the shape the path expects: wherever the path goes on below
  a value that is not blank, that value is a mapping.
\<close>

fun split_on :: "char \<Rightarrow> string \<Rightarrow> string list" where
  "split_on sep [] = [[]]"
| "split_on sep (c # cs) =
     (if c = sep then [] # split_on sep cs
      else (case split_on sep cs of
              [] \<Rightarrow> [[c]]
            | x # xs \<Rightarrow> (c # x) # xs))"

definition field_keys :: "string \<Rightarrow> string list" where
  "field_keys field = split_on CHR ''/'' field"

fun field_present :: "string list \<Rightarrow> pyval \<Rightarrow> bool" where
  "field_present [] v = True"
| "field_present (k # ks) v =
     (case v of
        PDict d \<Rightarrow> (case map_of d k of None \<Rightarrow> False | Some x \<Rightarrow> truthy x \<and> field_present ks x)
      | _ \<Rightarrow> False)"

fun mappings_along :: "string list \<Rightarrow> pyval \<Rightarrow> bool" where
  "mappings_along [] v = True"
| "mappings_along (k # ks) v =
     (case v of
        PDict d \<Rightarrow>
          (case map_of d k of
             None \<Rightarrow> True
           | Some x \<Rightarrow> if truthy x \<and> ks \<noteq> [] then mappings_along ks x else True)
      | _ \<Rightarrow> False)"

text \<open>
  A value that can be used as a dictionary key and is not a key of the mapping \<open>d\<close>.
\<close>

fun not_a_key :: "(string \<Rightarrow> 'a option) \<Rightarrow> pyval \<Rightarrow> bool" where
  "not_a_key d (PStr s) = (d s = None)"
| "not_a_key d (PList xs) = False"
| "not_a_key d (PDict kvs) = False"
| "not_a_key d v = True"

section \<open>Example objects\<close>

text \<open>
  Collaborators that never raise and note their calls in \<open>ext\<close>, collaborators whose
  \<^verbatim>\<open>Path(dest).mkdir\<close> raises, a world in which nothing has happened yet, the domain and the
  host entry of the specification's scenario, and utilities that succeed or raise.
\<close>

definition example_collaborators :: "string list collaborators" where
  "example_collaborators =
     \<lparr>SSHClient_init = (\<lambda>c x. (x @ [''client''], None)),
      SSHClient_connect = (\<lambda>c x. (x @ [''connect''], None)),
      SSHClient_run = (\<lambda>c command x. (x @ [''run''], Inr (PStr []))),
      CLIBuilder_init = (\<lambda>c x. (x @ [''builder''], None)),
      b64decode = (\<lambda>v. Inr (py_str v)),
      Path_mkdir = (\<lambda>dest parents exist_ok x. (x @ [''mkdir '' @ dest], None)),
      file_open_wb = (\<lambda>name x. (x @ [''open '' @ name], None)),
      file_write = (\<lambda>name content x. (x @ [''write '' @ name], None))\<rparr>"

definition example_collaborators_mkdir_raising :: "pyexc \<Rightarrow> string list collaborators" where
  "example_collaborators_mkdir_raising e =
     example_collaborators\<lparr>Path_mkdir := (\<lambda>dest parents exist_ok x. (x, Some e))\<rparr>"

definition example_world :: "string list world" where
  "example_world = \<lparr>events = [], ext = []\<rparr>"

definition example_domain :: MultihostDomain where
  "example_domain = \<lparr>domain_logger = ''logger'', domain_lazy_ssh = False, domain_type = PStr ''x''\<rparr>"

definition example_entry :: pydict where
  "example_entry =
     [(''hostname'', PStr ''h1''), (''role'', PStr ''r1''), (''username'', PStr ''u''),
      (''password'', PStr ''p'')]"

definition example_host :: "MultihostHostOS \<Rightarrow> pyval \<Rightarrow> MultihostHost" where
  "example_host os_value artifacts_value =
     \<lparr>host_class = ''MultihostHost'',
      domain = example_domain,
      logger = ''logger'',
      hostname = PStr ''h1'',
      role = PStr ''r1'',
      username = PStr ''u'',
      password = PStr ''p'',
      ip = PStr [],
      config = PDict [],
      artifacts = artifacts_value,
      shell = select_shell os_value,
      os = os_value,
      ssh = \<lparr>ssh_host = PStr ''h1'', ssh_user = PStr ''u'', ssh_password = PStr ''p'',
             ssh_logger = ''logger'', ssh_shell = select_shell os_value\<rparr>,
      cli = \<lparr>ssh_host = PStr ''h1'', ssh_user = PStr ''u'', ssh_password = PStr ''p'',
             ssh_logger = ''logger'', ssh_shell = select_shell os_value\<rparr>\<rparr>"

definition utility_ok :: "string \<Rightarrow> string list utility" where
  "utility_ok n =
     \<lparr>util_setup = (\<lambda>x. (x @ [''setup '' @ n], None)),
      util_teardown = (\<lambda>x. (x @ [''teardown '' @ n], None))\<rparr>"

definition utility_raising :: "string \<Rightarrow> pyexc \<Rightarrow> string list utility" where
  "utility_raising n e =
     \<lparr>util_setup = (\<lambda>x. (x @ [''setup '' @ n], Some e)),
      util_teardown = (\<lambda>x. (x @ [''teardown '' @ n], Some e))\<rparr>"

definition example_role :: "string list pyobject" where
  "example_role =
     role_object
       [(''c'', UtilityAttr (utility_ok ''c'')),
        (''b'', UtilityAttr (utility_raising ''b'' (OtherException ''boom''))),
        (''a'', UtilityAttr (utility_ok ''a''))]"

definition example_role_ok :: "string list pyobject" where
  "example_role_ok =
     role_object [(''y'', UtilityAttr (utility_ok ''y'')), (''x'', UtilityAttr (utility_ok ''x''))]"

definition example_role_failing :: "string list pyobject" where
  "example_role_failing =
     role_object
       [(''c'', UtilityAttr (utility_raising ''c'' (OtherException ''boom''))),
        (''b'', UtilityAttr (utility_ok ''b'')),
        (''a'', UtilityAttr (utility_raising ''a'' (ValueError ''bad'')))]"

definition example_role_exit :: "string list pyobject" where
  "example_role_exit =
     role_object
       [(''c'', UtilityAttr (utility_ok ''c'')),
        (''b'', UtilityAttr (utility_raising ''b'' (NonException ''SystemExit''))),
        (''a'', UtilityAttr (utility_raising ''a'' (ValueError ''bad'')))]"

definition example_role_interrupted :: "string list pyobject" where
  "example_role_interrupted =
     role_object
       [(''a'', UtilityAttr (utility_raising ''a'' (NonException ''KeyboardInterrupt''))),
        (''b'', UtilityAttr (utility_ok ''b''))]"

definition example_role_instance :: "string list MultihostRole" where
  "example_role_instance =
     (MultihostRole_init ''mh'' (PStr ''r1'') (example_host Linux (PList [])))
       \<lparr>role_attributes := example_role_failing\<rparr>"

definition example_role_class :: "string list role_type" where
  "example_role_class fixture role_value host w = ((w, host), Inr (MultihostRole_init fixture role_value host))"

definition example_host_type :: "string list host_type" where
  "example_host_type =
     MultihostHost_init example_collaborators ''ClientHost''
       (MultihostHost_required_fields @ [''config/realm''])"

definition example_host_with_ip :: MultihostHost where
  "example_host_with_ip =
     (example_host Linux (PList []))
       \<lparr>ip := PStr ''10.0.0.5'',
        ssh := \<lparr>ssh_host = PStr ''10.0.0.5'', ssh_user = PStr ''u'', ssh_password = PStr ''p'',
                ssh_logger = ''logger'', ssh_shell = SSHBashProcess\<rparr>,
        cli := \<lparr>ssh_host = PStr ''10.0.0.5'', ssh_user = PStr ''u'', ssh_password = PStr ''p'',
                ssh_logger = ''logger'', ssh_shell = SSHBashProcess\<rparr>\<rparr>"

section \<open>The cascades\<close>

lemma raised_simps [simp]:
  "raised [] = []" "raised (None # rs) = raised rs" "raised (Some e # rs) = e # raised rs"
  by (simp_all add: raised_def List.map_filter_simps)

lemma teardown_loop_prefix:
  "run_all (map (\<lambda>nu. util_teardown (snd nu)) us) (ext w) = (x', rs) \<Longrightarrow>
   (\<forall>e. Some e \<in> set rs \<longrightarrow> is_Exception e) \<Longrightarrow>
   teardown_loop (us @ rest) errs w =
     teardown_loop rest (errs @ raised rs)
       (w\<lparr>events := events w @ map (\<lambda>nu. Call_util_teardown (fst nu)) us, ext := x'\<rparr>)"
proof (induction us arbitrary: errs w x' rs)
  case Nil
  then show ?case by auto
next
  case (Cons nu us)
  obtain x1 r where step: "util_teardown (snd nu) (ext w) = (x1, r)"
    by (cases "util_teardown (snd nu) (ext w)")
  obtain x2 rs' where tail: "run_all (map (\<lambda>nu. util_teardown (snd nu)) us) x1 = (x2, rs')"
    by (cases "run_all (map (\<lambda>nu. util_teardown (snd nu)) us) x1")
  from Cons.prems(1) step tail have eqs: "x' = x2" "rs = r # rs'"
    by (simp_all add: Let_def)
  let ?w2 = "(log_event (Call_util_teardown (fst nu)) w)\<lparr>ext := x1\<rparr>"
  have ext2: "ext ?w2 = x1" by (simp add: log_event_def)
  have safe: "\<forall>e. Some e \<in> set rs' \<longrightarrow> is_Exception e"
    using Cons.prems(2) eqs by simp
  have IH: "\<And>errs'. teardown_loop (us @ rest) errs' ?w2 =
      teardown_loop rest (errs' @ raised rs')
        (?w2\<lparr>events := events ?w2 @ map (\<lambda>nu. Call_util_teardown (fst nu)) us, ext := x2\<rparr>)"
    using Cons.IH [of ?w2 x2 rs'] tail safe ext2 by simp
  show ?case
  proof (cases r)
    case None
    then show ?thesis
      using step IH [of errs] eqs by (simp add: Let_def log_event_def)
  next
    case (Some e)
    moreover have "is_Exception e" using Cons.prems(2) eqs Some by simp
    ultimately show ?thesis
      using step IH [of "errs @ [e]"] eqs by (simp add: Let_def log_event_def)
  qed
qed

lemma teardown_loop_all:
  "run_all (map (\<lambda>nu. util_teardown (snd nu)) us) (ext w) = (x', rs) \<Longrightarrow>
   (\<forall>e. Some e \<in> set rs \<longrightarrow> is_Exception e) \<Longrightarrow>
   teardown_loop us errs w =
     (w\<lparr>events := events w @ map (\<lambda>nu. Call_util_teardown (fst nu)) us, ext := x'\<rparr>,
      Inr (errs @ raised rs))"
  using teardown_loop_prefix [of us w x' rs "[]" errs] by simp

lemma run_all_length: "run_all gs x = (x', rs) \<Longrightarrow> length rs = length gs"
proof (induction gs arbitrary: x x' rs)
  case Nil
  then show ?case by auto
next
  case (Cons g gs)
  obtain x2 rs' where rest: "run_all gs (fst (g x)) = (x2, rs')"
    by (cases "run_all gs (fst (g x))")
  with Cons.prems have "rs = snd (g x) # rs'" by (simp add: Let_def)
  moreover have "length rs' = length gs" using Cons.IH rest by blast
  ultimately show ?case by simp
qed

lemma setup_loop_ok:
  "run_all (map (\<lambda>nu. util_setup (snd nu)) us) (ext w) = (x', rs) \<Longrightarrow>
   (\<forall>r \<in> set rs. r = None) \<Longrightarrow>
   setup_loop (us @ rest) w =
     setup_loop rest (w\<lparr>events := events w @ map (\<lambda>nu. Call_util_setup (fst nu)) us, ext := x'\<rparr>)"
proof (induction us arbitrary: w x' rs)
  case Nil
  then show ?case by auto
next
  case (Cons nu us)
  obtain x1 r where step: "util_setup (snd nu) (ext w) = (x1, r)"
    by (cases "util_setup (snd nu) (ext w)")
  obtain x2 rs' where rest: "run_all (map (\<lambda>nu. util_setup (snd nu)) us) x1 = (x2, rs')"
    by (cases "run_all (map (\<lambda>nu. util_setup (snd nu)) us) x1")
  from Cons.prems(1) step rest have eqs: "x' = x2" "rs = r # rs'"
    by (simp_all add: Let_def)
  with Cons.prems(2) have r: "r = None" and safe: "\<forall>r \<in> set rs'. r = None" by simp_all
  let ?w2 = "(log_event (Call_util_setup (fst nu)) w)\<lparr>ext := x1\<rparr>"
  have "setup_loop (us @ rest) ?w2 =
      setup_loop rest (?w2\<lparr>events := events ?w2 @ map (\<lambda>nu. Call_util_setup (fst nu)) us, ext := x2\<rparr>)"
    using Cons.IH [of ?w2 x2 rs'] rest safe by (simp add: log_event_def)
  then show ?case
    using step r eqs by (simp add: Let_def log_event_def)
qed

lemma update_fresh: "k \<notin> fst ` set al \<Longrightarrow> AList.update k v al = al @ [(k, v)]"
  by (induction al) auto

lemma fold_update_distinct:
  "distinct (map fst (acc @ ps)) \<Longrightarrow> fold (\<lambda>kv. AList.update (fst kv) (snd kv)) ps acc = acc @ ps"
proof (induction ps arbitrary: acc)
  case Nil
  then show ?case by simp
next
  case (Cons p ps)
  have fresh: "fst p \<notin> fst ` set acc" using Cons.prems by auto
  have "distinct (map fst ((acc @ [p]) @ ps))" using Cons.prems by simp
  then have "fold (\<lambda>kv. AList.update (fst kv) (snd kv)) ps (acc @ [p]) = (acc @ [p]) @ ps"
    by (rule Cons.IH)
  then show ?case using fresh by (simp add: update_fresh)
qed

lemma dict_of_pairs_distinct: "distinct (map fst ps) \<Longrightarrow> dict_of_pairs ps = ps"
  using fold_update_distinct [of "[]" ps] by (simp add: dict_of_pairs_def)

lemma map_insort_key: "map f (insort_key f x xs) = insort (f x) (map f xs)"
  by (induction xs) simp_all

lemma map_sort_key: "map f (sort_key f xs) = sort (map f xs)"
  by (induction xs) (simp_all add: map_insort_key)

lemma GetUtilityAttributes_names:
  assumes "distinct (map fst obj)"
  shows "map fst (GetUtilityAttributes obj) =
         sort (map fst (filter (\<lambda>m. isinstance_MultihostUtility (snd m)) obj))"
proof -
  let ?ms = "filter (\<lambda>m. isinstance_MultihostUtility (snd m)) obj"
  have "distinct (map fst ?ms)" using assms by (simp add: distinct_map_filter)
  then have "distinct (sort (map fst ?ms))" by simp
  then have "distinct (map fst (sort_key fst ?ms))" by (simp add: map_sort_key)
  then have "dict_of_pairs (getmembers obj isinstance_MultihostUtility) = sort_key fst ?ms"
    by (simp add: getmembers_def dict_of_pairs_distinct)
  then show ?thesis
    by (simp add: GetUtilityAttributes_def comp_def map_sort_key)
qed

text \<open>
  C2. The setup cascade calls \<^verbatim>\<open>setup()\<close> on the discovered utilities in discovery order
  (the names sorted). When the utilities before \<open>(n, u)\<close> in that order all set up normally
  and the \<^verbatim>\<open>setup()\<close> of \<open>u\<close> raises \<open>e\<close>, the cascade raises \<open>e\<close> itself, and the calls made
  are those of the utilities up to \<open>u\<close>: no later utility is set up. When no \<^verbatim>\<open>setup()\<close>
  raises, every utility is set up, in order, and the cascade returns normally.
\<close>

theorem setup_cascade_fail_fast:
  "(GetUtilityAttributes obj = pre @ (n, u) # post \<and>
    run_all (map (\<lambda>nu. util_setup (snd nu)) pre) (ext w) = (x1, rs) \<and>
    (\<forall>r \<in> set rs. r = None) \<and> util_setup u x1 = (x2, Some e) \<longrightarrow>
      SetupUtilityAttributes obj w =
        (w\<lparr>events := events w @ map Call_util_setup (map fst pre @ [n]), ext := x2\<rparr>, Some e))
   \<and> (run_all (map (\<lambda>nu. util_setup (snd nu)) (GetUtilityAttributes obj)) (ext w) = (x', rs') \<and>
      (\<forall>r \<in> set rs'. r = None) \<longrightarrow>
      SetupUtilityAttributes obj w =
        (w\<lparr>events := events w @ map Call_util_setup (map fst (GetUtilityAttributes obj)), ext := x'\<rparr>,
         None))
   \<and> (distinct (map fst obj) \<longrightarrow>
        map fst (GetUtilityAttributes obj) =
        sort (map fst (filter (\<lambda>m. isinstance_MultihostUtility (snd m)) obj)))"
proof (intro conjI impI)
  assume a: "GetUtilityAttributes obj = pre @ (n, u) # post \<and>
    run_all (map (\<lambda>nu. util_setup (snd nu)) pre) (ext w) = (x1, rs) \<and>
    (\<forall>r \<in> set rs. r = None) \<and> util_setup u x1 = (x2, Some e)"
  then have "setup_loop (pre @ (n, u) # post) w =
      setup_loop ((n, u) # post)
        (w\<lparr>events := events w @ map (\<lambda>nu. Call_util_setup (fst nu)) pre, ext := x1\<rparr>)"
    using setup_loop_ok [of pre w x1 rs "(n, u) # post"] by blast
  with a show "SetupUtilityAttributes obj w =
        (w\<lparr>events := events w @ map Call_util_setup (map fst pre @ [n]), ext := x2\<rparr>, Some e)"
    by (simp add: SetupUtilityAttributes_def Let_def log_event_def comp_def)
next
  assume b: "run_all (map (\<lambda>nu. util_setup (snd nu)) (GetUtilityAttributes obj)) (ext w) = (x', rs') \<and>
      (\<forall>r \<in> set rs'. r = None)"
  then show "SetupUtilityAttributes obj w =
        (w\<lparr>events := events w @ map Call_util_setup (map fst (GetUtilityAttributes obj)), ext := x'\<rparr>,
         None)"
    using setup_loop_ok [of "GetUtilityAttributes obj" w x' rs' "[]"]
    by (simp add: SetupUtilityAttributes_def comp_def)
next
  assume "distinct (map fst obj)"
  then show "map fst (GetUtilityAttributes obj) =
        sort (map fst (filter (\<lambda>m. isinstance_MultihostUtility (snd m)) obj))"
    by (rule GetUtilityAttributes_names)
qed

lemmas example_defs =
  example_role_def example_role_ok_def example_role_failing_def example_role_interrupted_def
  role_object_def utility_ok_def utility_raising_def example_world_def
  GetUtilityAttributes_def getmembers_def dict_of_pairs_def

theorem setup_cascade_fail_fast_witness:
  "SetupUtilityAttributes example_role example_world =
     (example_world\<lparr>events := [Call_util_setup ''a'', Call_util_setup ''b''],
                     ext := [''setup a'', ''setup b'']\<rparr>,
      Some (OtherException ''boom''))
   \<and> SetupUtilityAttributes example_role_ok example_world =
     (example_world\<lparr>events := [Call_util_setup ''x'', Call_util_setup ''y''],
                     ext := [''setup x'', ''setup y'']\<rparr>,
      None)
   \<and> map fst (GetUtilityAttributes example_role) = [''a'', ''b'', ''c'']"
  using
    setup_cascade_fail_fast [where obj = example_role and pre = "[(''a'', utility_ok ''a'')]"
      and n = "''b''" and u = "utility_raising ''b'' (OtherException ''boom'')"
      and post = "[(''c'', utility_ok ''c'')]" and w = example_world
      and ?x1.0 = "[''setup a'']" and rs = "[None]" and ?x2.0 = "[''setup a'', ''setup b'']"
      and e = "OtherException ''boom''" and x' = "[]" and rs' = "[Some TypeError]"]
    setup_cascade_fail_fast [where obj = example_role_ok and pre = "[]"
      and n = "''x''" and u = "utility_ok ''x''"
      and post = "[]" and w = example_world
      and ?x1.0 = "[]" and rs = "[]" and ?x2.0 = "[]"
      and e = "TypeError" and x' = "[''setup x'', ''setup y'']" and rs' = "[None, None]"]
  by (simp add: example_defs Let_def)

text \<open>
  C1, as amended. \<open>run_all\<close> gives the outcome of each \<^verbatim>\<open>teardown()\<close> of a list of
  utilities when all of them are run. When every exception raised by the discovered
  utilities is an instance of \<^verbatim>\<open>Exception\<close>, the cascade calls \<^verbatim>\<open>teardown()\<close> on every
  one of them, in discovery order, whatever the earlier ones raised; it then raises
  \<^verbatim>\<open>Exception(errors)\<close>, where \<open>errors\<close> is the list of the raised exception objects
  themselves in that order, or returns normally when none was raised. When \<open>u\<close> is the
  first utility whose \<^verbatim>\<open>teardown()\<close> raises an exception \<open>e0\<close> that is not an instance of
  \<^verbatim>\<open>Exception\<close>, the cascade ends there: the calls made are those of the utilities up to
  \<open>u\<close>, no later utility is torn down, and \<open>e0\<close> itself is raised, whatever was collected
  before. For an object with distinct attribute names the discovered utilities are all
  its utility attributes, by name.
\<close>

theorem teardown_cascade_aggregates:
  "(run_all (map (\<lambda>nu. util_teardown (snd nu)) (GetUtilityAttributes obj)) (ext w) = (x', rs) \<and>
    (\<forall>e. Some e \<in> set rs \<longrightarrow> is_Exception e) \<longrightarrow>
      TeardownUtilityAttributes obj w =
        (w\<lparr>events := events w @ map Call_util_teardown (map fst (GetUtilityAttributes obj)),
            ext := x'\<rparr>,
         if raised rs = [] then None else Some (Exception (raised rs)))
      \<and> length rs = length (GetUtilityAttributes obj))
   \<and> (GetUtilityAttributes obj = pre @ (n, u) # post \<and>
      run_all (map (\<lambda>nu. util_teardown (snd nu)) pre) (ext w) = (x1, rs1) \<and>
      (\<forall>e. Some e \<in> set rs1 \<longrightarrow> is_Exception e) \<and>
      util_teardown u x1 = (x2, Some e0) \<and> \<not> is_Exception e0 \<longrightarrow>
        TeardownUtilityAttributes obj w =
          (w\<lparr>events := events w @ map Call_util_teardown (map fst pre @ [n]), ext := x2\<rparr>,
           Some e0))
   \<and> (distinct (map fst obj) \<longrightarrow>
        map fst (GetUtilityAttributes obj) =
        sort (map fst (filter (\<lambda>m. isinstance_MultihostUtility (snd m)) obj)))"
proof (intro conjI impI)
  assume a: "run_all (map (\<lambda>nu. util_teardown (snd nu)) (GetUtilityAttributes obj)) (ext w) = (x', rs) \<and>
    (\<forall>e. Some e \<in> set rs \<longrightarrow> is_Exception e)"
  then have "teardown_loop (GetUtilityAttributes obj) [] w =
     (w\<lparr>events := events w @ map (\<lambda>nu. Call_util_teardown (fst nu)) (GetUtilityAttributes obj),
         ext := x'\<rparr>, Inr ([] @ raised rs))"
    using teardown_loop_all [of "GetUtilityAttributes obj" w x' rs "[]"] by blast
  then show "TeardownUtilityAttributes obj w =
        (w\<lparr>events := events w @ map Call_util_teardown (map fst (GetUtilityAttributes obj)),
            ext := x'\<rparr>,
         if raised rs = [] then None else Some (Exception (raised rs)))"
    by (simp add: TeardownUtilityAttributes_def comp_def)
  show "length rs = length (GetUtilityAttributes obj)"
    using a run_all_length [of "map (\<lambda>nu. util_teardown (snd nu)) (GetUtilityAttributes obj)" "ext w" x' rs]
    by simp
next
  assume b: "GetUtilityAttributes obj = pre @ (n, u) # post \<and>
      run_all (map (\<lambda>nu. util_teardown (snd nu)) pre) (ext w) = (x1, rs1) \<and>
      (\<forall>e. Some e \<in> set rs1 \<longrightarrow> is_Exception e) \<and>
      util_teardown u x1 = (x2, Some e0) \<and> \<not> is_Exception e0"
  then have "teardown_loop (pre @ (n, u) # post) [] w =
      teardown_loop ((n, u) # post) ([] @ raised rs1)
        (w\<lparr>events := events w @ map (\<lambda>nu. Call_util_teardown (fst nu)) pre, ext := x1\<rparr>)"
    using teardown_loop_prefix [of pre w x1 rs1 "(n, u) # post" "[]"] by blast
  with b show "TeardownUtilityAttributes obj w =
          (w\<lparr>events := events w @ map Call_util_teardown (map fst pre @ [n]), ext := x2\<rparr>,
           Some e0)"
    by (simp add: TeardownUtilityAttributes_def Let_def log_event_def comp_def)
next
  assume "distinct (map fst obj)"
  then show "map fst (GetUtilityAttributes obj) =
        sort (map fst (filter (\<lambda>m. isinstance_MultihostUtility (snd m)) obj))"
    by (rule GetUtilityAttributes_names)
qed

theorem teardown_cascade_aggregates_witness:
  "MultihostRole_teardown example_role_instance example_world =
     (example_world\<lparr>events := [Call_util_teardown ''a'', Call_util_teardown ''b'', Call_util_teardown ''c''],
                     ext := [''teardown a'', ''teardown b'', ''teardown c'']\<rparr>,
      Some (Exception [ValueError ''bad'', OtherException ''boom'']))
   \<and> TeardownUtilityAttributes example_role_ok example_world =
     (example_world\<lparr>events := [Call_util_teardown ''x'', Call_util_teardown ''y''],
                     ext := [''teardown x'', ''teardown y'']\<rparr>,
      None)
   \<and> TeardownUtilityAttributes example_role_exit example_world =
     (example_world\<lparr>events := [Call_util_teardown ''a'', Call_util_teardown ''b''],
                     ext := [''teardown a'', ''teardown b'']\<rparr>,
      Some (NonException ''SystemExit''))"
  using
    teardown_cascade_aggregates [where obj = example_role_failing and w = example_world
      and x' = "[''teardown a'', ''teardown b'', ''teardown c'']"
      and rs = "[Some (ValueError ''bad''), None, Some (OtherException ''boom'')]"
      and pre = "[]" and n = "''a''" and u = "utility_ok ''a''" and post = "[]"
      and ?x1.0 = "[]" and ?rs1.0 = "[]" and ?x2.0 = "[]" and ?e0.0 = TypeError]
    teardown_cascade_aggregates [where obj = example_role_ok and w = example_world
      and x' = "[''teardown x'', ''teardown y'']" and rs = "[None, None]"
      and pre = "[]" and n = "''a''" and u = "utility_ok ''a''" and post = "[]"
      and ?x1.0 = "[]" and ?rs1.0 = "[]" and ?x2.0 = "[]" and ?e0.0 = TypeError]
    teardown_cascade_aggregates [where obj = example_role_exit and w = example_world
      and x' = "[]" and rs = "[Some (NonException ''SystemExit'')]"
      and pre = "[(''a'', utility_raising ''a'' (ValueError ''bad''))]" and n = "''b''"
      and u = "utility_raising ''b'' (NonException ''SystemExit'')"
      and post = "[(''c'', utility_ok ''c'')]"
      and ?x1.0 = "[''teardown a'']" and ?rs1.0 = "[Some (ValueError ''bad'')]"
      and ?x2.0 = "[''teardown a'', ''teardown b'']" and ?e0.0 = "NonException ''SystemExit''"]
  by (simp add: example_defs Let_def MultihostRole_teardown_def example_role_instance_def
      MultihostRole_init_def example_role_exit_def)

text \<open>
  C1 as stated fails: a role has the utilities \<open>a\<close> and \<open>b\<close>; the \<^verbatim>\<open>teardown()\<close> of \<open>a\<close>
  raises \<^verbatim>\<open>KeyboardInterrupt\<close>, which is not an instance of \<^verbatim>\<open>Exception\<close>, and that of \<open>b\<close>
  would return normally. The cascade calls \<^verbatim>\<open>teardown()\<close> on \<open>a\<close> only and raises the
  \<^verbatim>\<open>KeyboardInterrupt\<close> itself, not the aggregate error.
\<close>

theorem teardown_cascade_counterexample:
  "map fst (GetUtilityAttributes example_role_interrupted) = [''a'', ''b'']
   \<and> run_all (map (\<lambda>nu. util_teardown (snd nu)) (GetUtilityAttributes example_role_interrupted)) [] =
       ([''teardown a'', ''teardown b''], [Some (NonException ''KeyboardInterrupt''), None])
   \<and> TeardownUtilityAttributes example_role_interrupted example_world =
       (example_world\<lparr>events := [Call_util_teardown ''a''], ext := [''teardown a'']\<rparr>,
        Some (NonException ''KeyboardInterrupt''))"
  by (simp add: example_defs Let_def TeardownUtilityAttributes_def log_event_def)

section \<open>Configuration, hosts and roles\<close>

text \<open>
  C3. For a configuration document without the key \<^verbatim>\<open>"domains"\<close>, the constructor of
  \<^verbatim>\<open>MultihostConfig\<close> raises the \<^verbatim>\<open>ValueError\<close> of the source. The world is the one before
  the call, so \<^verbatim>\<open>create_domain\<close> was not called, and the list \<^verbatim>\<open>domains\<close> of the object is
  empty. This holds for every implementation of \<^verbatim>\<open>create_domain\<close>.
\<close>

theorem config_without_domains:
  "''domains'' \<notin> fst ` set confdict \<Longrightarrow>
   MultihostConfig_init create_domain confdict lg lazy w =
     (w, \<lparr>config_logger = lg, lazy_ssh = lazy, domains = []\<rparr>,
      Some (ValueError ''\"domains\" property is missing in multihost configuration''))"
proof -
  assume "''domains'' \<notin> fst ` set confdict"
  then have "map_of confdict ''domains'' = None"
    by (simp add: map_of_eq_None_iff)
  then show ?thesis
    by (simp add: MultihostConfig_init_def)
qed

theorem config_without_domains_witness:
  "''domains'' \<notin> fst ` set [(''domain'', PList [PDict []])]
   \<and> MultihostConfig_init (\<lambda>self d x. (x @ [''domain''], Inr d)) [(''domain'', PList [PDict []])]
       ''logger'' False example_world =
     (example_world, \<lparr>config_logger = ''logger'', lazy_ssh = False, domains = []\<rparr>,
      Some (ValueError ''\"domains\" property is missing in multihost configuration''))"
  using config_without_domains [where confdict = "[(''domain'', PList [PDict []])]"
      and create_domain = "\<lambda>self d x. (x @ [''domain''], Inr d)" and lg = "''logger''"
      and lazy = False and w = example_world]
  by simp

lemma not_a_key_lookup: "not_a_key d v \<Longrightarrow> lookup_key d v = Inr None"
  by (cases v) simp_all

text \<open>
  C5. For a host whose role can be used as a dictionary key (a string, as the attribute
  is declared, or a number, a boolean or \<^verbatim>\<open>None\<close>) and is not a key of
  \<^verbatim>\<open>role_to_role_type\<close>, \<^verbatim>\<open>create_role\<close> raises \<^verbatim>\<open>ValueError("Unexpected role: ...")\<close>.
  The world and the host object after the call are those before it: no role class was
  called, there is no fallback class, and the host is unchanged.
\<close>

theorem create_role_unknown_role:
  "not_a_key role_to_role_type (role host) \<Longrightarrow>
   create_role role_to_role_type fixture host w =
     ((w, host), Inl (ValueError (''Unexpected role: '' @ py_str (role host))))"
  by (simp add: create_role_def not_a_key_lookup)

theorem create_role_unknown_role_witness:
  "not_a_key [''client'' \<mapsto> example_role_class] (role (example_host Linux (PList [])))
   \<and> create_role [''client'' \<mapsto> example_role_class] ''mh'' (example_host Linux (PList [])) example_world =
       ((example_world, example_host Linux (PList [])), Inl (ValueError ''Unexpected role: r1''))
   \<and> create_role [''r1'' \<mapsto> example_role_class] ''mh'' (example_host Linux (PList [])) example_world =
       ((example_world\<lparr>events := [Call_role_class ''r1'']\<rparr>, example_host Linux (PList [])),
        Inr (MultihostRole_init ''mh'' (PStr ''r1'') (example_host Linux (PList []))))"
  using create_role_unknown_role [where role_to_role_type = "[''client'' \<mapsto> example_role_class]"
      and host = "example_host Linux (PList [])" and fixture = "''mh''" and w = example_world]
  by (simp add: example_host_def example_role_class_def create_role_def py_str_def log_event_def
      example_world_def)

section \<open>Host construction\<close>

declare is_present.simps [simp del]

lemma split_on_no_sep: "sep \<notin> set s \<Longrightarrow> split_on sep s = [s]"
  by (induction s) auto

lemma split_on_sep:
  "sep \<in> set s \<Longrightarrow>
   split_on sep s = takeWhile (\<lambda>c. c \<noteq> sep) s # split_on sep (tl (dropWhile (\<lambda>c. c \<noteq> sep) s))"
proof (induction s)
  case Nil
  then show ?case by simp
next
  case (Cons c s)
  show ?case
  proof (cases "c = sep")
    case True
    then show ?thesis by simp
  next
    case False
    with Cons.prems have "sep \<in> set s" by simp
    with Cons.IH False show ?thesis by simp
  qed
qed

lemma field_keys_plain: "CHR ''/'' \<notin> set field \<Longrightarrow> field_keys field = [field]"
  by (simp add: field_keys_def split_on_no_sep)

lemma field_keys_nested:
  "CHR ''/'' \<in> set field \<Longrightarrow> field_keys field = split_key field # field_keys (split_subpath field)"
  by (simp add: field_keys_def split_on_sep split_key_def split_subpath_def)

lemma field_keys_not_Nil: "field_keys field \<noteq> []"
  by (cases "CHR ''/'' \<in> set field") (simp_all add: field_keys_plain field_keys_nested)

lemma is_present_plain:
  "CHR ''/'' \<notin> set field \<Longrightarrow> is_present field (PDict d) = Inr (dict_get d field (PBool False))"
  by (subst is_present.simps) (simp add: dict_get_def split: option.splits)

text \<open>
  Where the document has the shape a required field expects, \<^verbatim>\<open>is_present\<close> raises
  nothing and its result is true exactly when the field is present.
\<close>

lemma is_present_field:
  "mappings_along (field_keys field) v \<Longrightarrow>
   \<exists>r. is_present field v = Inr r \<and> truthy r = field_present (field_keys field) v"
proof (induction field v rule: is_present.induct)
  case (1 property confdict)
  show ?case
  proof (cases "CHR ''/'' \<in> set property")
    case False
    with "1.prems" obtain d where d: "confdict = PDict d"
      by (cases confdict) (simp_all add: field_keys_plain)
    show ?thesis
      using False d by (simp add: is_present_plain field_keys_plain dict_get_def split: option.splits)
  next
    case True
    let ?k = "split_key property" and ?ks = "field_keys (split_subpath property)"
    have keys: "field_keys property = ?k # ?ks" using True by (rule field_keys_nested)
    have ne: "?ks \<noteq> []" by (rule field_keys_not_Nil)
    from "1.prems" keys obtain d where d: "confdict = PDict d"
      by (cases confdict) simp_all
    show ?thesis
    proof (cases "map_of d ?k")
      case None
      then show ?thesis
        using True d keys by (subst is_present.simps) (simp add: dict_get_def)
    next
      case (Some x)
      show ?thesis
      proof (cases "truthy x")
        case False
        then show ?thesis
          using True d keys Some by (subst is_present.simps) (simp add: dict_get_def)
      next
        case tx: True
        have "mappings_along ?ks x" using "1.prems" keys d Some tx ne by simp
        moreover have "py_get confdict ?k = Inr x" using d Some by (simp add: dict_get_def)
        moreover have "py_getitem confdict ?k = Inr x" using d Some by simp
        ultimately have "\<exists>r. is_present (split_subpath property) x = Inr r
            \<and> truthy r = field_present ?ks x"
          using "1.IH" [of x x] True tx by simp
        then show ?thesis
          using True d keys Some tx by (subst is_present.simps) (simp add: dict_get_def)
      qed
    qed
  qed
qed

lemma field_present_mappings: "field_present ks v \<Longrightarrow> mappings_along ks v"
proof (induction ks arbitrary: v)
  case Nil
  then show ?case by simp
next
  case (Cons k ks)
  then show ?case
    by (cases v) (auto split: option.splits)
qed

lemma check_required_first_missing:
  "\<forall>g \<in> set pre. field_present (field_keys g) (PDict confdict) \<Longrightarrow>
   \<not> field_present (field_keys field) (PDict confdict) \<Longrightarrow>
   mappings_along (field_keys field) (PDict confdict) \<Longrightarrow>
   check_required (pre @ field # post) confdict =
     Some (ValueError (''\"'' @ field @ ''\" property is missing in host configuration''))"
proof (induction pre)
  case Nil
  then obtain r where "is_present field (PDict confdict) = Inr r" "\<not> truthy r"
    using is_present_field [of field "PDict confdict"] by auto
  then show ?case by simp
next
  case (Cons g pre)
  then have "field_present (field_keys g) (PDict confdict)" by simp
  then obtain r where "is_present g (PDict confdict) = Inr r" "truthy r"
    using is_present_field [of g "PDict confdict"] field_present_mappings by blast
  then show ?case using Cons by simp
qed

lemma check_required_all_present:
  "\<forall>g \<in> set req. field_present (field_keys g) (PDict confdict) \<Longrightarrow> check_required req confdict = None"
proof (induction req)
  case Nil
  then show ?case by simp
next
  case (Cons g req)
  then have "field_present (field_keys g) (PDict confdict)" by simp
  then obtain r where "is_present g (PDict confdict) = Inr r" "truthy r"
    using is_present_field [of g "PDict confdict"] field_present_mappings by blast
  then show ?case using Cons by simp
qed

text \<open>
  C6, as amended. The required fields are checked in the order of \<^verbatim>\<open>required_fields\<close>.
  When the fields before \<open>field\<close> are present, \<open>field\<close> is missing or blank at some depth,
  and the document has mappings wherever the path of \<open>field\<close> goes on below a value that
  is not blank, the constructor raises the \<^verbatim>\<open>ValueError\<close> that names \<open>field\<close>, and the
  world is the one before the call: nothing else was constructed or called.
\<close>

theorem required_field_missing:
  "required_fields = pre @ field # post \<Longrightarrow>
   \<forall>g \<in> set pre. field_present (field_keys g) (PDict confdict) \<Longrightarrow>
   \<not> field_present (field_keys field) (PDict confdict) \<Longrightarrow>
   mappings_along (field_keys field) (PDict confdict) \<Longrightarrow>
   MultihostHost_init C cls required_fields self_domain confdict w =
     (w, Inl (ValueError (''\"'' @ field @ ''\" property is missing in host configuration'')))"
  by (simp add: MultihostHost_init_def check_required_first_missing)

lemmas field_eval =
  field_keys_def MultihostHost_required_fields_def example_entry_def split_key_def split_subpath_def
  dict_get_def

theorem required_field_missing_witness:
  "\<not> field_present (field_keys ''config/client/ad_domain'')
       (PDict (example_entry @ [(''config'', PDict [(''client'', PDict [])])]))
   \<and> MultihostHost_init example_collaborators ''ADHost''
       (MultihostHost_required_fields @ [''config/client/ad_domain'']) example_domain
       (example_entry @ [(''config'', PDict [(''client'', PDict [])])]) example_world =
     (example_world,
      Inl (ValueError ''\"config/client/ad_domain\" property is missing in host configuration''))
   \<and> MultihostHost_init example_collaborators ''MultihostHost''
       MultihostHost_required_fields example_domain
       [(''hostname'', PStr ''h1''), (''role'', PStr ''r1''), (''username'', PStr []),
        (''password'', PStr ''p'')] example_world =
     (example_world, Inl (ValueError ''\"username\" property is missing in host configuration''))"
  using
    required_field_missing [where required_fields = "MultihostHost_required_fields @ [''config/client/ad_domain'']"
      and pre = MultihostHost_required_fields and field = "''config/client/ad_domain''" and post = "[]"
      and confdict = "example_entry @ [(''config'', PDict [(''client'', PDict [])])]"
      and C = example_collaborators and cls = "''ADHost''" and self_domain = example_domain
      and w = example_world]
    required_field_missing [where required_fields = MultihostHost_required_fields
      and pre = "[''hostname'', ''role'']" and field = "''username''" and post = "[''password'']"
      and confdict = "[(''hostname'', PStr ''h1''), (''role'', PStr ''r1''), (''username'', PStr []),
        (''password'', PStr ''p'')]"
      and C = example_collaborators and cls = "''MultihostHost''" and self_domain = example_domain
      and w = example_world]
  by (simp add: field_eval)

text \<open>
  C6 as stated fails. A subclass requires \<^verbatim>\<open>config/client/ad_domain\<close>; the entry has the
  four fields of the base class and \<^verbatim>\<open>config: "x"\<close>, a string where the path expects a
  mapping, so the required field is missing. \<^verbatim>\<open>is_present\<close> calls \<^verbatim>\<open>"x".get\<close>, and the
  constructor raises \<^verbatim>\<open>AttributeError\<close>, not \<^verbatim>\<open>ValueError\<close>.
\<close>

theorem required_field_counterexample:
  "\<not> field_present (field_keys ''config/client/ad_domain'')
       (PDict (example_entry @ [(''config'', PStr ''x'')]))
   \<and> MultihostHost_init example_collaborators ''ADHost''
       (MultihostHost_required_fields @ [''config/client/ad_domain'']) example_domain
       (example_entry @ [(''config'', PStr ''x'')]) example_world =
     (example_world, Inl AttributeError)"
  by (simp add: field_eval MultihostHost_init_def is_present.simps)



lemma map_of_update_other: "k \<noteq> k' \<Longrightarrow> map_of (AList.update k' v d) k = map_of d k"
  by (simp add: AList.update_conv')

lemma map_of_update_same: "map_of (AList.update k v d) k = Some v"
  by (simp add: AList.update_conv')

lemma determine_os_case:
  "py_lower s = py_lower t \<Longrightarrow>
   determine_os (AList.update ''os'' (PStr s) confdict) = determine_os (AList.update ''os'' (PStr t) confdict)"
  by (simp add: determine_os_def dict_get_def map_of_update_same py_str_def)

lemma base_fields_case:
  "check_required MultihostHost_required_fields (AList.update ''os'' x confdict) =
   check_required MultihostHost_required_fields confdict"
  by (simp add: MultihostHost_required_fields_def is_present_plain dict_get_def map_of_update_other)

lemma getitem_case:
  "k \<noteq> ''os'' \<Longrightarrow> dict_getitem (AList.update ''os'' x confdict) k = dict_getitem confdict k"
  by (simp add: dict_getitem_def map_of_update_other)

lemma get_case:
  "k \<noteq> ''os'' \<Longrightarrow> dict_get (AList.update ''os'' x confdict) k dflt = dict_get confdict k dflt"
  by (simp add: dict_get_def map_of_update_other)

lemma host_new_case:
  assumes "py_lower s = py_lower t"
  shows "MultihostHost_new C self_domain (AList.update ''os'' (PStr s) confdict) w =
         MultihostHost_new C self_domain (AList.update ''os'' (PStr t) confdict) w"
proof -
  have os: "determine_os (AList.update ''os'' (PStr s) confdict) =
            determine_os (AList.update ''os'' (PStr t) confdict)"
    using assms by (rule determine_os_case)
  have keys: "''hostname'' \<noteq> ''os''" "''role'' \<noteq> ''os''" "''username'' \<noteq> ''os''"
    "''password'' \<noteq> ''os''" "''ip'' \<noteq> ''os''" "''config'' \<noteq> ''os''" "''artifacts'' \<noteq> ''os''"
    by simp_all
  show ?thesis
    unfolding MultihostHost_new_def MultihostHost_init_def base_fields_case
      getitem_case [OF keys(1)] getitem_case [OF keys(2)] getitem_case [OF keys(3)]
      getitem_case [OF keys(4)] get_case [OF keys(5)] get_case [OF keys(6)] get_case [OF keys(7)] os
    by (rule refl)
qed


lemma base_fields_result:
  "check_required MultihostHost_required_fields confdict = None \<or>
   (\<exists>m. check_required MultihostHost_required_fields confdict = Some (ValueError m))"
  by (simp add: MultihostHost_required_fields_def is_present_plain)

lemma base_fields_getitem:
  "check_required MultihostHost_required_fields confdict = None \<Longrightarrow>
   (\<exists>v. dict_getitem confdict ''hostname'' = Inr v) \<and> (\<exists>v. dict_getitem confdict ''role'' = Inr v) \<and>
   (\<exists>v. dict_getitem confdict ''username'' = Inr v) \<and> (\<exists>v. dict_getitem confdict ''password'' = Inr v)"
  by (simp add: MultihostHost_required_fields_def is_present_plain dict_get_def dict_getitem_def
      split: option.splits if_splits)

lemma determine_os_rejects:
  "map_of confdict ''os'' = Some v \<Longrightarrow> py_lower (py_str v) \<noteq> ''linux'' \<Longrightarrow>
   py_lower (py_str v) \<noteq> ''windows'' \<Longrightarrow>
   determine_os confdict =
     Inl (ValueError (''Value \"'' @ py_lower (py_str v) @ ''\" is not supported in os field of host configuration''))"
  by (simp add: determine_os_def dict_get_def MultihostHostOS_lookup_def)

lemma init_fails_on_os:
  assumes "determine_os confdict = Inl e0"
  shows "\<exists>e. MultihostHost_init C cls required_fields self_domain confdict w = (w, Inl e)"
  using assms by (simp add: MultihostHost_init_def split: option.splits sum.splits)

lemma new_fails_on_os:
  assumes "determine_os confdict = Inl (ValueError m0)"
  shows "\<exists>m. MultihostHost_new C self_domain confdict w = (w, Inl (ValueError m))"
proof -
  from base_fields_result [of confdict] show ?thesis
  proof
    assume ok: "check_required MultihostHost_required_fields confdict = None"
    with base_fields_getitem [OF ok] assms show ?thesis
      by (auto simp add: MultihostHost_new_def MultihostHost_init_def)
  next
    assume "\<exists>m. check_required MultihostHost_required_fields confdict = Some (ValueError m)"
    then show ?thesis
      by (auto simp add: MultihostHost_new_def MultihostHost_init_def)
  qed
qed

lemma new_os_message:
  assumes "\<forall>f \<in> set MultihostHost_required_fields. truthy (dict_get confdict f PNone)"
    and "determine_os confdict = Inl e0"
  shows "MultihostHost_new C self_domain confdict w = (w, Inl e0)"
proof -
  have ok: "check_required MultihostHost_required_fields confdict = None"
    using assms(1)
    by (simp add: MultihostHost_required_fields_def is_present_plain dict_get_def split: option.splits)
  with base_fields_getitem [OF ok] assms(2) show ?thesis
    by (auto simp add: MultihostHost_new_def MultihostHost_init_def)
qed

lemma determine_os_default: "''os'' \<notin> fst ` set confdict \<Longrightarrow> determine_os confdict = Inr Linux"
proof -
  assume "''os'' \<notin> fst ` set confdict"
  then have "map_of confdict ''os'' = None" by (simp add: map_of_eq_None_iff)
  then show ?thesis
    by (simp add: determine_os_def dict_get_def MultihostHostOS_lookup_def py_str_def py_lower_def
        py_lower_char_def)
qed

lemma init_result_os:
  assumes "MultihostHost_init C cls required_fields self_domain confdict w = (w', Inr h)"
  shows "determine_os confdict = Inr (os h) \<and> shell h = select_shell (os h)
     \<and> ssh_shell (ssh h) = select_shell (os h)"
  using assms
  by (auto simp add: MultihostHost_init_def Let_def
      split: option.splits sum.splits prod.splits if_splits)

text \<open>
  C7, as amended. When the entry has a value for \<^verbatim>\<open>os\<close> that, written as a string in
  lower case as the constructor reads it, is neither \<^verbatim>\<open>linux\<close> nor \<^verbatim>\<open>windows\<close>, the
  construction of a host fails and the world is the one before the call: no
  \<^verbatim>\<open>SSHClient\<close> was constructed or connected. For the base class \<^verbatim>\<open>MultihostHost\<close> the error is a \<^verbatim>\<open>ValueError\<close>, and
  when its four required fields are there it is the one that names the value. Whenever a
  construction succeeds, the host is Linux if the entry has no \<^verbatim>\<open>os\<close>, a Linux host has
  the bash process wrapper and a Windows host the PowerShell one, in the host and in the
  SSH client.
\<close>

theorem host_os_validated:
  "(map_of confdict ''os'' = Some v \<and> py_lower (py_str v) \<noteq> ''linux'' \<and>
    py_lower (py_str v) \<noteq> ''windows'' \<longrightarrow>
      (\<exists>e. MultihostHost_init C cls required_fields self_domain confdict w = (w, Inl e)) \<and>
      (\<exists>m. MultihostHost_new C self_domain confdict w = (w, Inl (ValueError m))) \<and>
      ((\<forall>f \<in> set MultihostHost_required_fields. truthy (dict_get confdict f PNone)) \<longrightarrow>
         MultihostHost_new C self_domain confdict w =
           (w, Inl (ValueError (''Value \"'' @ py_lower (py_str v)
                                @ ''\" is not supported in os field of host configuration'')))))
   \<and> (MultihostHost_init C cls required_fields self_domain confdict w = (w', Inr h) \<longrightarrow>
        (''os'' \<notin> fst ` set confdict \<longrightarrow> os h = Linux) \<and>
        (os h = Linux \<longrightarrow> shell h = SSHBashProcess \<and> ssh_shell (ssh h) = SSHBashProcess) \<and>
        (os h = Windows \<longrightarrow> shell h = SSHPowerShellProcess \<and> ssh_shell (ssh h) = SSHPowerShellProcess))"
proof (intro conjI impI)
  assume a: "map_of confdict ''os'' = Some v \<and> py_lower (py_str v) \<noteq> ''linux'' \<and>
    py_lower (py_str v) \<noteq> ''windows''"
  then have rej: "determine_os confdict =
     Inl (ValueError (''Value \"'' @ py_lower (py_str v) @ ''\" is not supported in os field of host configuration''))"
    by (simp add: determine_os_rejects)
  show "\<exists>e. MultihostHost_init C cls required_fields self_domain confdict w = (w, Inl e)"
    using rej by (rule init_fails_on_os)
  show "\<exists>m. MultihostHost_new C self_domain confdict w = (w, Inl (ValueError m))"
    using rej by (rule new_fails_on_os)
  assume "\<forall>f \<in> set MultihostHost_required_fields. truthy (dict_get confdict f PNone)"
  then show "MultihostHost_new C self_domain confdict w =
           (w, Inl (ValueError (''Value \"'' @ py_lower (py_str v)
                                @ ''\" is not supported in os field of host configuration'')))"
    using rej by (rule new_os_message)
next
  assume r: "MultihostHost_init C cls required_fields self_domain confdict w = (w', Inr h)"
  note res = init_result_os [OF r]
  {
    assume "''os'' \<notin> fst ` set confdict"
    then show "os h = Linux" using res determine_os_default by fastforce
  }
  {
    assume "os h = Linux"
    then show "shell h = SSHBashProcess" "ssh_shell (ssh h) = SSHBashProcess" using res by simp_all
  }
  {
    assume "os h = Windows"
    then show "shell h = SSHPowerShellProcess" "ssh_shell (ssh h) = SSHPowerShellProcess"
      using res by simp_all
  }
qed

lemmas host_eval =
  MultihostHost_new_def MultihostHost_init_def MultihostHost_required_fields_def is_present_plain
  example_entry_def example_domain_def example_world_def example_collaborators_def example_host_def
  dict_get_def dict_getitem_def determine_os_def MultihostHostOS_lookup_def py_str_def py_lower_def
  py_lower_char_def get_ssh_host_def call_ext_def log_event_def Let_def

lemma example_new_linux:
  "MultihostHost_new example_collaborators example_domain example_entry example_world =
     (example_world
        \<lparr>events := [New_SSHClient (ssh (example_host Linux (PList []))),
                    New_CLIBuilder (ssh (example_host Linux (PList []))),
                    Call_connect (ssh (example_host Linux (PList [])))],
         ext := [''client'', ''builder'', ''connect'']\<rparr>,
      Inr (example_host Linux (PList [])))"
  by (simp add: host_eval)

lemma example_new_windows:
  "MultihostHost_new example_collaborators example_domain
     (AList.update ''os'' (PStr ''windows'') example_entry) example_world =
     (example_world
        \<lparr>events := [New_SSHClient (ssh (example_host Windows (PList []))),
                    New_CLIBuilder (ssh (example_host Windows (PList []))),
                    Call_connect (ssh (example_host Windows (PList [])))],
         ext := [''client'', ''builder'', ''connect'']\<rparr>,
      Inr (example_host Windows (PList [])))"
  by (simp add: host_eval)

theorem host_os_validated_witness:
  "MultihostHost_new example_collaborators example_domain
     (AList.update ''os'' (PStr ''bogus'') example_entry) example_world =
     (example_world, Inl (ValueError ''Value \"bogus\" is not supported in os field of host configuration''))
   \<and> (\<exists>w'. MultihostHost_new example_collaborators example_domain example_entry example_world =
         (w', Inr (example_host Linux (PList []))))
   \<and> os (example_host Linux (PList [])) = Linux
   \<and> shell (example_host Linux (PList [])) = SSHBashProcess
   \<and> (\<exists>w'. MultihostHost_new example_collaborators example_domain
         (AList.update ''os'' (PStr ''windows'') example_entry) example_world =
         (w', Inr (example_host Windows (PList []))))
   \<and> shell (example_host Windows (PList [])) = SSHPowerShellProcess
   \<and> ssh_shell (ssh (example_host Windows (PList []))) = SSHPowerShellProcess"
proof -
  have bogus: "map_of (AList.update ''os'' (PStr ''bogus'') example_entry) ''os'' = Some (PStr ''bogus'')"
    "py_lower (py_str (PStr ''bogus'')) = ''bogus''"
    "\<forall>f \<in> set MultihostHost_required_fields.
       truthy (dict_get (AList.update ''os'' (PStr ''bogus'') example_entry) f PNone)"
    by (simp_all add: host_eval)
  show ?thesis
    using bogus example_new_linux example_new_windows
      host_os_validated [where confdict = "AList.update ''os'' (PStr ''bogus'') example_entry"
        and v = "PStr ''bogus''" and C = example_collaborators and cls = "''MultihostHost''"
        and required_fields = MultihostHost_required_fields and self_domain = example_domain
        and w = example_world and w' = example_world and h = "example_host Linux (PList [])"]
      host_os_validated [where confdict = example_entry
        and v = "PStr ''bogus''" and C = example_collaborators and cls = "''MultihostHost''"
        and required_fields = MultihostHost_required_fields and self_domain = example_domain
        and w = example_world
        and w' = "example_world
          \<lparr>events := [New_SSHClient (ssh (example_host Linux (PList []))),
                      New_CLIBuilder (ssh (example_host Linux (PList []))),
                      Call_connect (ssh (example_host Linux (PList [])))],
           ext := [''client'', ''builder'', ''connect'']\<rparr>"
        and h = "example_host Linux (PList [])"]
      host_os_validated [where confdict = "AList.update ''os'' (PStr ''windows'') example_entry"
        and v = "PStr ''windows''" and C = example_collaborators and cls = "''MultihostHost''"
        and required_fields = MultihostHost_required_fields and self_domain = example_domain
        and w = example_world
        and w' = "example_world
          \<lparr>events := [New_SSHClient (ssh (example_host Windows (PList []))),
                      New_CLIBuilder (ssh (example_host Windows (PList []))),
                      Call_connect (ssh (example_host Windows (PList [])))],
           ext := [''client'', ''builder'', ''connect'']\<rparr>"
        and h = "example_host Windows (PList [])"]
    by (simp add: MultihostHost_new_def example_host_def example_entry_def)
qed
lemma example_new_linux_given:
  "MultihostHost_new example_collaborators example_domain
     (AList.update ''os'' (PStr ''linux'') example_entry) example_world =
     (example_world
        \<lparr>events := [New_SSHClient (ssh (example_host Linux (PList []))),
                    New_CLIBuilder (ssh (example_host Linux (PList []))),
                    Call_connect (ssh (example_host Linux (PList [])))],
         ext := [''client'', ''builder'', ''connect'']\<rparr>,
      Inr (example_host Linux (PList [])))"
  by (simp add: host_eval)

text \<open>
  C7 as stated fails: the value \<^verbatim>\<open>LINUX\<close> is not one of the two values of the
  enumeration, \<^verbatim>\<open>linux\<close> and \<^verbatim>\<open>windows\<close>, and the construction succeeds with a Linux host:
  the SSH client is constructed and connected.
\<close>

theorem host_os_counterexample:
  "''LINUX'' \<noteq> ''linux'' \<and> ''LINUX'' \<noteq> ''windows''
   \<and> MultihostHost_new example_collaborators example_domain
       (AList.update ''os'' (PStr ''LINUX'') example_entry) example_world =
     (example_world
        \<lparr>events := [New_SSHClient (ssh (example_host Linux (PList []))),
                    New_CLIBuilder (ssh (example_host Linux (PList []))),
                    Call_connect (ssh (example_host Linux (PList [])))],
         ext := [''client'', ''builder'', ''connect'']\<rparr>,
      Inr (example_host Linux (PList [])))
   \<and> os (example_host Linux (PList [])) = Linux"
proof -
  have "py_lower ''LINUX'' = py_lower ''linux''" by code_simp
  then have "MultihostHost_new example_collaborators example_domain
       (AList.update ''os'' (PStr ''LINUX'') example_entry) example_world =
     MultihostHost_new example_collaborators example_domain
       (AList.update ''os'' (PStr ''linux'') example_entry) example_world"
    by (rule host_new_case)
  then show ?thesis
    using example_new_linux_given by (simp add: example_host_def)
qed








lemma init_result_class:
  assumes "MultihostHost_init C cls required_fields self_domain confdict w = (w', Inr h)"
  shows "host_class h = cls"
  using assms
  by (auto simp add: MultihostHost_init_def Let_def
      split: option.splits sum.splits prod.splits if_splits)

lemma example_new_linux_logged:
  "MultihostHost_new example_collaborators example_domain example_entry
     (log_event (Call_host_class None example_entry) example_world) =
     (example_world
        \<lparr>events := [Call_host_class None example_entry,
                    New_SSHClient (ssh (example_host Linux (PList []))),
                    New_CLIBuilder (ssh (example_host Linux (PList []))),
                    Call_connect (ssh (example_host Linux (PList [])))],
         ext := [''client'', ''builder'', ''connect'']\<rparr>,
      Inr (example_host Linux (PList [])))"
  by (simp add: host_eval)

text \<open>
  C4, as amended. A missing or blank \<^verbatim>\<open>role\<close> raises the \<^verbatim>\<open>ValueError\<close> of \<^verbatim>\<open>create_host\<close>
  with the world unchanged: no host class was called. For a role that is not blank, can
  be used as a dictionary key and is not a key of \<^verbatim>\<open>role_to_host_type\<close>, \<^verbatim>\<open>create_host\<close>
  does not fail on the role: it calls the generic class \<^verbatim>\<open>MultihostHost\<close> on the entry,
  and its result is the result of that construction. So every host it returns is an
  instance of \<^verbatim>\<open>MultihostHost\<close> itself, and it raises what that construction raises.
\<close>

theorem create_host_generic_fallback:
  "(\<not> truthy (dict_get confdict ''role'' PNone) \<longrightarrow>
      create_host C role_to_host_type self_domain confdict w =
        (w, Inl (ValueError ''\"role\" property is missing in host configuration'')))
   \<and> (map_of confdict ''role'' = Some role_value \<and> truthy role_value \<and>
      not_a_key role_to_host_type role_value \<longrightarrow>
        create_host C role_to_host_type self_domain confdict w =
          MultihostHost_new C self_domain confdict (log_event (Call_host_class None confdict) w)
        \<and> (create_host C role_to_host_type self_domain confdict w = (w', Inr h) \<longrightarrow>
             host_class h = ''MultihostHost''))"
proof (intro conjI impI)
  assume "\<not> truthy (dict_get confdict ''role'' PNone)"
  then show "create_host C role_to_host_type self_domain confdict w =
        (w, Inl (ValueError ''\"role\" property is missing in host configuration''))"
    by (simp add: create_host_def)
next
  assume a: "map_of confdict ''role'' = Some role_value \<and> truthy role_value \<and>
      not_a_key role_to_host_type role_value"
  then show eq: "create_host C role_to_host_type self_domain confdict w =
          MultihostHost_new C self_domain confdict (log_event (Call_host_class None confdict) w)"
    by (simp add: create_host_def dict_get_def dict_getitem_def not_a_key_lookup)
  assume "create_host C role_to_host_type self_domain confdict w = (w', Inr h)"
  with eq show "host_class h = ''MultihostHost''"
    using init_result_class [of C "''MultihostHost''" MultihostHost_required_fields self_domain
        confdict "log_event (Call_host_class None confdict) w" w' h]
    by (simp add: MultihostHost_new_def)
qed

theorem create_host_generic_fallback_witness:
  "create_host example_collaborators [''client'' \<mapsto> example_host_type] example_domain
     [(''hostname'', PStr ''h1''), (''role'', PStr [])] example_world =
     (example_world, Inl (ValueError ''\"role\" property is missing in host configuration''))
   \<and> create_host example_collaborators [''client'' \<mapsto> example_host_type] example_domain
       example_entry example_world =
     (example_world
        \<lparr>events := [Call_host_class None example_entry,
                    New_SSHClient (ssh (example_host Linux (PList []))),
                    New_CLIBuilder (ssh (example_host Linux (PList []))),
                    Call_connect (ssh (example_host Linux (PList [])))],
         ext := [''client'', ''builder'', ''connect'']\<rparr>,
      Inr (example_host Linux (PList [])))
   \<and> host_class (example_host Linux (PList [])) = ''MultihostHost''"
proof -
  have blank: "\<not> truthy (dict_get [(''hostname'', PStr ''h1''), (''role'', PStr [])] ''role'' PNone)"
    by (simp add: dict_get_def)
  have unknown: "map_of example_entry ''role'' = Some (PStr ''r1'')" "truthy (PStr ''r1'')"
    "not_a_key [''client'' \<mapsto> example_host_type] (PStr ''r1'')"
    by (simp_all add: example_entry_def)
  show ?thesis
    using blank unknown example_new_linux_logged
      create_host_generic_fallback [where confdict = "[(''hostname'', PStr ''h1''), (''role'', PStr [])]"
        and C = example_collaborators and role_to_host_type = "[''client'' \<mapsto> example_host_type]"
        and self_domain = example_domain and w = example_world and role_value = PNone]
      create_host_generic_fallback [where confdict = example_entry
        and C = example_collaborators and role_to_host_type = "[''client'' \<mapsto> example_host_type]"
        and self_domain = example_domain and w = example_world and role_value = "PStr ''r1''"
        and h = "example_host Linux (PList [])"
        and w' = "example_world
          \<lparr>events := [Call_host_class None example_entry,
                      New_SSHClient (ssh (example_host Linux (PList []))),
                      New_CLIBuilder (ssh (example_host Linux (PList []))),
                      Call_connect (ssh (example_host Linux (PList [])))],
           ext := [''client'', ''builder'', ''connect'']\<rparr>"]
    by simp
qed

text \<open>
  C4 as stated fails: the entry has the role \<^verbatim>\<open>r1\<close>, which is not blank and not a key of
  \<^verbatim>\<open>role_to_host_type\<close>, and nothing else. \<^verbatim>\<open>create_host\<close> calls the generic class, whose
  constructor raises the \<^verbatim>\<open>ValueError\<close> for the missing \<^verbatim>\<open>hostname\<close>: it does not succeed
  and no host is constructed.
\<close>

theorem create_host_counterexample:
  "truthy (dict_get [(''role'', PStr ''r1'')] ''role'' PNone)
   \<and> not_a_key [''client'' \<mapsto> example_host_type] (PStr ''r1'')
   \<and> create_host example_collaborators [''client'' \<mapsto> example_host_type] example_domain
       [(''role'', PStr ''r1'')] example_world =
     (example_world\<lparr>events := [Call_host_class None [(''role'', PStr ''r1'')]]\<rparr>,
      Inl (ValueError ''\"hostname\" property is missing in host configuration''))"
  by (simp add: create_host_def host_eval)

section \<open>Collecting artifacts\<close>

lemma collect_artifacts_windows:
  assumes "os self = Windows" and "truthy (artifacts self)"
  shows "collect_artifacts C self dest w =
     ((log_event (Call_mkdir dest True True) w)\<lparr>ext := fst (Path_mkdir C dest True True (ext w))\<rparr>,
      case snd (Path_mkdir C dest True True (ext w)) of
        Some e \<Rightarrow> Some e
      | None \<Rightarrow> Some (NotImplementedError ''Artifacts are not supported on Windows machine''))"
  using assms
  by (simp add: collect_artifacts_def call_ext_def Let_def log_event_def split: option.splits)

text \<open>
  C8, as amended. With no artifacts (any value of \<^verbatim>\<open>artifacts\<close> that is empty or blank),
  \<^verbatim>\<open>collect_artifacts\<close> returns normally and the world is the one before the call: no
  call on the file system or on the SSH client. On a Windows host with artifacts, the
  only call it makes is \<^verbatim>\<open>Path(dest).mkdir(parents=True, exist_ok=True)\<close>: no remote
  command is run, and \<open>ext\<close> is what that call leaves. The call never returns normally:
  when \<^verbatim>\<open>mkdir\<close> returns normally it raises the \<^verbatim>\<open>NotImplementedError\<close> of the source, and
  when \<^verbatim>\<open>mkdir\<close> raises it raises that error.
\<close>

theorem collect_artifacts_no_remote_command:
  "(\<not> truthy (artifacts self) \<longrightarrow> collect_artifacts C self dest w = (w, None))
   \<and> (os self = Windows \<and> truthy (artifacts self) \<and> collect_artifacts C self dest w = (w', r) \<longrightarrow>
        events w' = events w @ [Call_mkdir dest True True] \<and>
        ext w' = fst (Path_mkdir C dest True True (ext w)) \<and>
        r \<noteq> None \<and>
        (snd (Path_mkdir C dest True True (ext w)) = None \<longrightarrow>
           r = Some (NotImplementedError ''Artifacts are not supported on Windows machine'')) \<and>
        (snd (Path_mkdir C dest True True (ext w)) = Some e \<longrightarrow> r = Some e))"
proof (intro conjI impI)
  assume "\<not> truthy (artifacts self)"
  then show "collect_artifacts C self dest w = (w, None)"
    by (simp add: collect_artifacts_def)
next
  assume a: "os self = Windows \<and> truthy (artifacts self) \<and> collect_artifacts C self dest w = (w', r)"
  then have eq: "(w', r) =
     ((log_event (Call_mkdir dest True True) w)\<lparr>ext := fst (Path_mkdir C dest True True (ext w))\<rparr>,
      case snd (Path_mkdir C dest True True (ext w)) of
        Some e \<Rightarrow> Some e
      | None \<Rightarrow> Some (NotImplementedError ''Artifacts are not supported on Windows machine''))"
    using collect_artifacts_windows [of self C dest w] by simp
  show "events w' = events w @ [Call_mkdir dest True True]"
    using eq by (simp add: log_event_def)
  show "ext w' = fst (Path_mkdir C dest True True (ext w))"
    using eq by simp
  show "r \<noteq> None"
    using eq by (simp split: option.splits)
  {
    assume "snd (Path_mkdir C dest True True (ext w)) = None"
    then show "r = Some (NotImplementedError ''Artifacts are not supported on Windows machine'')"
      using eq by simp
  }
  {
    assume "snd (Path_mkdir C dest True True (ext w)) = Some e"
    then show "r = Some e"
      using eq by simp
  }
qed

lemmas artifacts_eval =
  collect_artifacts_def call_ext_def log_event_def Let_def example_host_def example_world_def
  example_collaborators_def example_collaborators_mkdir_raising_def

lemma example_windows_collect:
  "collect_artifacts example_collaborators (example_host Windows (PList [PStr ''/var/log/app.log'']))
     ''out/logs'' example_world =
     (example_world\<lparr>events := [Call_mkdir ''out/logs'' True True], ext := [''mkdir out/logs'']\<rparr>,
      Some (NotImplementedError ''Artifacts are not supported on Windows machine''))"
  by (simp add: artifacts_eval)

theorem collect_artifacts_no_remote_command_witness:
  "collect_artifacts example_collaborators (example_host Linux (PList [])) ''out/logs'' example_world =
     (example_world, None)
   \<and> collect_artifacts example_collaborators (example_host Windows (PList [PStr ''/var/log/app.log'']))
       ''out/logs'' example_world =
     (example_world\<lparr>events := [Call_mkdir ''out/logs'' True True], ext := [''mkdir out/logs'']\<rparr>,
      Some (NotImplementedError ''Artifacts are not supported on Windows machine''))
   \<and> collect_artifacts (example_collaborators_mkdir_raising PermissionError)
       (example_host Windows (PList [PStr ''/var/log/app.log''])) ''out/logs'' example_world =
     (example_world\<lparr>events := [Call_mkdir ''out/logs'' True True]\<rparr>, Some PermissionError)"
proof -
  have raising: "collect_artifacts (example_collaborators_mkdir_raising PermissionError)
       (example_host Windows (PList [PStr ''/var/log/app.log''])) ''out/logs'' example_world =
     (example_world\<lparr>events := [Call_mkdir ''out/logs'' True True]\<rparr>, Some PermissionError)"
    by (simp add: artifacts_eval)
  show ?thesis
    using example_windows_collect raising
      collect_artifacts_no_remote_command [where self = "example_host Linux (PList [])"
        and C = example_collaborators and dest = "''out/logs''" and w = example_world
        and w' = example_world and r = None and e = TypeError]
      collect_artifacts_no_remote_command
        [where self = "example_host Windows (PList [PStr ''/var/log/app.log''])"
        and C = example_collaborators and dest = "''out/logs''" and w = example_world
        and w' = "example_world\<lparr>events := [Call_mkdir ''out/logs'' True True],
                                ext := [''mkdir out/logs'']\<rparr>"
        and r = "Some (NotImplementedError ''Artifacts are not supported on Windows machine'')"
        and e = TypeError]
      collect_artifacts_no_remote_command
        [where self = "example_host Windows (PList [PStr ''/var/log/app.log''])"
        and C = "example_collaborators_mkdir_raising PermissionError" and dest = "''out/logs''"
        and w = example_world
        and w' = "example_world\<lparr>events := [Call_mkdir ''out/logs'' True True]\<rparr>"
        and r = "Some PermissionError" and e = PermissionError]
    by (simp add: example_host_def)
qed

text \<open>
  C8 as stated fails: on a Windows host with one artifact, with a destination \<^verbatim>\<open>out\<close>
  that exists as a regular file, \<^verbatim>\<open>Path(dest).mkdir(parents=True, exist_ok=True)\<close> raises
  \<^verbatim>\<open>FileExistsError\<close>, and \<^verbatim>\<open>collect_artifacts\<close> raises that error, not
  \<^verbatim>\<open>NotImplementedError\<close>.
\<close>

theorem collect_artifacts_counterexample:
  "os (example_host Windows (PList [PStr ''/var/log/app.log''])) = Windows
   \<and> truthy (artifacts (example_host Windows (PList [PStr ''/var/log/app.log''])))
   \<and> Path_mkdir (example_collaborators_mkdir_raising FileExistsError) ''out'' True True [] =
       ([], Some FileExistsError)
   \<and> collect_artifacts (example_collaborators_mkdir_raising FileExistsError)
       (example_host Windows (PList [PStr ''/var/log/app.log''])) ''out'' example_world =
     (example_world\<lparr>events := [Call_mkdir ''out'' True True]\<rparr>, Some FileExistsError)"
  by (simp add: artifacts_eval)

text \<open>
  C9, as amended. On a Windows host with artifacts, \<^verbatim>\<open>collect_artifacts\<close> first calls
  \<^verbatim>\<open>Path(dest).mkdir\<close> with \<^verbatim>\<open>parents=True\<close> and \<^verbatim>\<open>exist_ok=True\<close>. When that call returns
  normally, leaving the state \<open>x1\<close> in which the directory is made, the
  \<^verbatim>\<open>NotImplementedError\<close> is raised in that state: what \<^verbatim>\<open>mkdir\<close> did to the local file
  system stays. When the call raises, its error is raised and not the
  \<^verbatim>\<open>NotImplementedError\<close>. In both cases the call of \<^verbatim>\<open>mkdir\<close> is the only one made.
\<close>

theorem collect_artifacts_makes_directory:
  "os self = Windows \<and> truthy (artifacts self) \<longrightarrow>
     (Path_mkdir C dest True True (ext w) = (x1, None) \<longrightarrow>
        collect_artifacts C self dest w =
          (w\<lparr>events := events w @ [Call_mkdir dest True True], ext := x1\<rparr>,
           Some (NotImplementedError ''Artifacts are not supported on Windows machine'')))
     \<and> (Path_mkdir C dest True True (ext w) = (x1, Some e) \<longrightarrow>
          collect_artifacts C self dest w =
            (w\<lparr>events := events w @ [Call_mkdir dest True True], ext := x1\<rparr>, Some e))"
proof (intro conjI impI)
  assume a: "os self = Windows \<and> truthy (artifacts self)"
  note eq = collect_artifacts_windows [of self C dest w]
  {
    assume "Path_mkdir C dest True True (ext w) = (x1, None)"
    then show "collect_artifacts C self dest w =
          (w\<lparr>events := events w @ [Call_mkdir dest True True], ext := x1\<rparr>,
           Some (NotImplementedError ''Artifacts are not supported on Windows machine''))"
      using eq a by (simp add: log_event_def)
  }
  {
    assume "Path_mkdir C dest True True (ext w) = (x1, Some e)"
    then show "collect_artifacts C self dest w =
            (w\<lparr>events := events w @ [Call_mkdir dest True True], ext := x1\<rparr>, Some e)"
      using eq a by (simp add: log_event_def)
  }
qed

theorem collect_artifacts_makes_directory_witness:
  "ext example_world = []
   \<and> collect_artifacts example_collaborators
       (example_host Windows (PList [PStr ''/var/log/app.log''])) ''out/logs'' example_world =
     (example_world\<lparr>events := [Call_mkdir ''out/logs'' True True], ext := [''mkdir out/logs'']\<rparr>,
      Some (NotImplementedError ''Artifacts are not supported on Windows machine''))
   \<and> collect_artifacts (example_collaborators_mkdir_raising OSError)
       (example_host Windows (PList [PStr ''/var/log/app.log''])) ''out/logs'' example_world =
     (example_world\<lparr>events := [Call_mkdir ''out/logs'' True True], ext := []\<rparr>, Some OSError)"
proof -
  have host: "os (example_host Windows (PList [PStr ''/var/log/app.log''])) = Windows"
    "truthy (artifacts (example_host Windows (PList [PStr ''/var/log/app.log''])))"
    by (simp_all add: example_host_def)
  have made: "Path_mkdir example_collaborators ''out/logs'' True True (ext example_world) =
      ([''mkdir out/logs''], None)"
    by (simp add: example_collaborators_def example_world_def)
  have failed: "Path_mkdir (example_collaborators_mkdir_raising OSError) ''out/logs'' True True
      (ext example_world) = ([], Some OSError)"
    by (simp add: example_collaborators_mkdir_raising_def example_world_def)
  show ?thesis
    using host made failed
      collect_artifacts_makes_directory
        [where self = "example_host Windows (PList [PStr ''/var/log/app.log''])"
          and C = example_collaborators and dest = "''out/logs''" and w = example_world
          and ?x1.0 = "[''mkdir out/logs'']" and e = TypeError]
      collect_artifacts_makes_directory
        [where self = "example_host Windows (PList [PStr ''/var/log/app.log''])"
          and C = "example_collaborators_mkdir_raising OSError" and dest = "''out/logs''"
          and w = example_world and ?x1.0 = "[]" and e = OSError]
    by (simp add: example_world_def)
qed

text \<open>
  C9 as stated fails: on a Windows host with one artifact, with a destination
  \<^verbatim>\<open>out/logs\<close> where \<^verbatim>\<open>out\<close> exists as a regular file, \<^verbatim>\<open>Path(dest).mkdir\<close> raises
  \<^verbatim>\<open>NotADirectoryError\<close> and makes nothing. \<^verbatim>\<open>collect_artifacts\<close> raises that error: no
  directory is made and the \<^verbatim>\<open>NotImplementedError\<close> is not raised.
\<close>

theorem collect_artifacts_directory_counterexample:
  "os (example_host Windows (PList [PStr ''/var/log/app.log''])) = Windows
   \<and> truthy (artifacts (example_host Windows (PList [PStr ''/var/log/app.log''])))
   \<and> Path_mkdir (example_collaborators_mkdir_raising NotADirectoryError) ''out/logs'' True True [] =
       ([], Some NotADirectoryError)
   \<and> collect_artifacts (example_collaborators_mkdir_raising NotADirectoryError)
       (example_host Windows (PList [PStr ''/var/log/app.log''])) ''out/logs'' example_world =
     (example_world\<lparr>events := [Call_mkdir ''out/logs'' True True]\<rparr>, Some NotADirectoryError)"
  by (simp add: artifacts_eval)

section \<open>Further properties of the host\<close>

text \<open>
  X1. The address of the SSH client of a constructed host is the \<^verbatim>\<open>ip\<close> of the entry when
  that is set and not blank, and its \<^verbatim>\<open>hostname\<close> otherwise; the credentials are those
  of the host.
\<close>

theorem ssh_address_prefers_ip:
  "MultihostHost_init C cls required_fields self_domain confdict w = (w', Inr h) \<Longrightarrow>
   ssh_host (ssh h) = (if truthy (ip h) then ip h else hostname h)
   \<and> ip h = dict_get confdict ''ip'' (PStr [])
   \<and> map_of confdict ''hostname'' = Some (hostname h)
   \<and> ssh_user (ssh h) = username h \<and> ssh_password (ssh h) = password h"
  by (auto simp add: MultihostHost_init_def Let_def get_ssh_host_def dict_getitem_def
      split: option.splits sum.splits prod.splits if_splits)

lemma example_new_with_ip:
  "MultihostHost_new example_collaborators example_domain
     (example_entry @ [(''ip'', PStr ''10.0.0.5'')]) example_world =
     (example_world
        \<lparr>events := [New_SSHClient (ssh example_host_with_ip), New_CLIBuilder (ssh example_host_with_ip),
                    Call_connect (ssh example_host_with_ip)],
         ext := [''client'', ''builder'', ''connect'']\<rparr>,
      Inr example_host_with_ip)"
  by (simp add: host_eval example_host_with_ip_def)

theorem ssh_address_prefers_ip_witness:
  "(\<exists>w'. MultihostHost_new example_collaborators example_domain
            (example_entry @ [(''ip'', PStr ''10.0.0.5'')]) example_world = (w', Inr example_host_with_ip))
   \<and> ssh_host (ssh example_host_with_ip) = PStr ''10.0.0.5''
   \<and> (\<exists>w'. MultihostHost_new example_collaborators example_domain example_entry example_world =
            (w', Inr (example_host Linux (PList []))))
   \<and> ssh_host (ssh (example_host Linux (PList []))) = PStr ''h1''"
  using example_new_with_ip example_new_linux
    ssh_address_prefers_ip [where C = example_collaborators and cls = "''MultihostHost''"
      and required_fields = MultihostHost_required_fields and self_domain = example_domain
      and confdict = "example_entry @ [(''ip'', PStr ''10.0.0.5'')]" and w = example_world
      and h = example_host_with_ip
      and w' = "example_world
        \<lparr>events := [New_SSHClient (ssh example_host_with_ip), New_CLIBuilder (ssh example_host_with_ip),
                    Call_connect (ssh example_host_with_ip)],
         ext := [''client'', ''builder'', ''connect'']\<rparr>"]
    ssh_address_prefers_ip [where C = example_collaborators and cls = "''MultihostHost''"
      and required_fields = MultihostHost_required_fields and self_domain = example_domain
      and confdict = example_entry and w = example_world
      and h = "example_host Linux (PList [])"
      and w' = "example_world
        \<lparr>events := [New_SSHClient (ssh (example_host Linux (PList []))),
                    New_CLIBuilder (ssh (example_host Linux (PList []))),
                    Call_connect (ssh (example_host Linux (PList [])))],
         ext := [''client'', ''builder'', ''connect'']\<rparr>"]
  by (simp add: MultihostHost_new_def example_host_with_ip_def example_host_def)

text \<open>
  X2. A construction that succeeds constructs the SSH client, then the command line builder
  over it, and connects the client last, unless the configuration of the domain is lazy:
  then it does not connect.
\<close>

theorem lazy_ssh_does_not_connect:
  "MultihostHost_init C cls required_fields self_domain confdict w = (w', Inr h) \<Longrightarrow>
   events w' =
     events w @ [New_SSHClient (ssh h), New_CLIBuilder (ssh h)]
       @ (if domain_lazy_ssh self_domain then [] else [Call_connect (ssh h)])"
  by (auto simp add: MultihostHost_init_def Let_def call_ext_def log_event_def
      split: option.splits sum.splits prod.splits if_splits)

theorem lazy_ssh_does_not_connect_witness:
  "MultihostHost_new example_collaborators (example_domain\<lparr>domain_lazy_ssh := True\<rparr>)
     example_entry example_world =
     (example_world
        \<lparr>events := [New_SSHClient (ssh (example_host Linux (PList []))),
                    New_CLIBuilder (ssh (example_host Linux (PList [])))],
         ext := [''client'', ''builder'']\<rparr>,
      Inr ((example_host Linux (PList []))\<lparr>domain := example_domain\<lparr>domain_lazy_ssh := True\<rparr>\<rparr>))"
proof -
  have run: "MultihostHost_new example_collaborators (example_domain\<lparr>domain_lazy_ssh := True\<rparr>)
     example_entry example_world =
     (example_world
        \<lparr>events := [New_SSHClient (ssh (example_host Linux (PList []))),
                    New_CLIBuilder (ssh (example_host Linux (PList [])))],
         ext := [''client'', ''builder'']\<rparr>,
      Inr ((example_host Linux (PList []))\<lparr>domain := example_domain\<lparr>domain_lazy_ssh := True\<rparr>\<rparr>))"
    by (simp add: host_eval)
  from lazy_ssh_does_not_connect [OF run [unfolded MultihostHost_new_def]] run show ?thesis
    by simp
qed

end
